theory Spec2Isabelle
  imports Main "HOL-Library.Monad_Syntax"
begin

section \<open>Go strings\<close>

text \<open>
  A Go string is a sequence of bytes, here \<^typ>\<open>string\<close>.  The functions of the
  packages \<open>strings\<close> and \<open>strconv\<close> that the agent package calls are modelled on
  ASCII text: case mapping touches the letters \<open>A\<close>-\<open>Z\<close> and \<open>a\<close>-\<open>z\<close> only, white
  space is the six ASCII space characters, and a byte above \<open>0x7F\<close> is taken to be part
  of a printable character.
\<close>

definition is_space :: "char \<Rightarrow> bool" where
  "is_space c = (c \<in> set [CHR '' '', CHR 0x09, CHR 0x0A, CHR 0x0B, CHR 0x0C, CHR 0x0D])"

definition upper_byte :: "char \<Rightarrow> char" where
  "upper_byte c =
     (let n = (of_char c :: nat) in if 97 \<le> n \<and> n \<le> 122 then char_of (n - 32) else c)"


definition ToUpper :: "string \<Rightarrow> string" where
  "ToUpper s = map upper_byte s"


definition TrimSpace :: "string \<Rightarrow> string" where
  "TrimSpace s = rev (dropWhile is_space (rev (dropWhile is_space s)))"

fun HasPrefix :: "string \<Rightarrow> string \<Rightarrow> bool" where
  "HasPrefix s [] = True"
| "HasPrefix [] (p # ps) = False"
| "HasPrefix (c # cs) (p # ps) = (c = p \<and> HasPrefix cs ps)"

fun Contains :: "string \<Rightarrow> string \<Rightarrow> bool" where
  "Contains [] substr = (substr = [])"
| "Contains (c # cs) substr = (HasPrefix (c # cs) substr \<or> Contains cs substr)"

text \<open>\<open>strconv.Quote\<close>, which the verb \<open>%q\<close> of \<open>fmt\<close> applies to a string.\<close>

definition hex_digit :: "nat \<Rightarrow> char" where
  "hex_digit n = ''0123456789abcdef'' ! (n mod 16)"

definition quote_byte :: "char \<Rightarrow> string" where
  "quote_byte c =
     (let n = (of_char c :: nat) in
      if c = CHR 0x22 then [CHR 0x5C, CHR 0x22]
      else if c = CHR 0x5C then [CHR 0x5C, CHR 0x5C]
      else if 0x20 \<le> n \<and> n < 0x7F then [c]
      else if n = 0x07 then [CHR 0x5C, CHR ''a'']
      else if n = 0x08 then [CHR 0x5C, CHR ''b'']
      else if n = 0x0C then [CHR 0x5C, CHR ''f'']
      else if n = 0x0A then [CHR 0x5C, CHR ''n'']
      else if n = 0x0D then [CHR 0x5C, CHR ''r'']
      else if n = 0x09 then [CHR 0x5C, CHR ''t'']
      else if n = 0x0B then [CHR 0x5C, CHR ''v'']
      else if n < 0x20 \<or> n = 0x7F
        then [CHR 0x5C, CHR ''x'', hex_digit (n div 16), hex_digit n]
      else [c])"

definition Quote :: "string \<Rightarrow> string" where
  "Quote s = [CHR 0x22] @ concat (map quote_byte s) @ [CHR 0x22]"

fun Split :: "string \<Rightarrow> char \<Rightarrow> string list" where
  "Split [] sep = [[]]"
| "Split (c # cs) sep =
     (if c = sep then [] # Split cs sep
      else (case Split cs sep of [] \<Rightarrow> [[c]] | l # ls \<Rightarrow> (c # l) # ls))"

fun Join :: "string list \<Rightarrow> string \<Rightarrow> string" where
  "Join [] sep = []"
| "Join [e] sep = e"
| "Join (e # es) sep = e @ sep @ Join es sep"

definition is_digit :: "char \<Rightarrow> bool" where
  "is_digit c = (let n = (of_char c :: nat) in 48 \<le> n \<and> n \<le> 57)"

definition digit_char :: "nat \<Rightarrow> char" where
  "digit_char n = char_of (48 + n mod 10)"

fun Itoa_nat :: "nat \<Rightarrow> string" where
  "Itoa_nat n = (if n < 10 then [digit_char n] else Itoa_nat (n div 10) @ [digit_char n])"

definition Itoa :: "int \<Rightarrow> string" where
  "Itoa i = (if i < 0 then ''-'' @ Itoa_nat (nat (- i)) else Itoa_nat (nat i))"

text \<open>
  \<open>strconv.Atoi\<close>: an optional sign and at least one decimal digit, and a value that
  fits the 64-bit \<open>int\<close>; everything else is an error (\<open>None\<close>).
\<close>

definition digits_value :: "string \<Rightarrow> nat" where
  "digits_value ds = foldl (\<lambda>a c. 10 * a + (of_char c - 48)) 0 ds"

definition Atoi :: "string \<Rightarrow> int option" where
  "Atoi s =
     (let neg = (s \<noteq> [] \<and> hd s = CHR ''-'');
          ds = (if s \<noteq> [] \<and> (hd s = CHR ''-'' \<or> hd s = CHR ''+'') then tl s else s);
          v = (if neg then - int (digits_value ds) else int (digits_value ds))
      in if ds = [] \<or> \<not> list_all is_digit ds then None
         else if v < - (2 ^ 63) \<or> 2 ^ 63 \<le> v then None
         else Some v)"

section \<open>JSON\<close>

text \<open>
  The documents of \<open>encoding/json\<close>.  Numbers are the integers, which is all the
  agent package stores; an object keeps its members in the order in which they are
  written.
\<close>

datatype json =
    JNull
  | JBool bool
  | JNumber int
  | JString string
  | JArray "json list"
  | JObject "(string \<times> json) list"

subsection \<open>\<open>json.Valid\<close>\<close>

text \<open>
  The grammar of RFC 8259 as the scanner of \<open>encoding/json\<close> accepts it.  Each scanning
  function returns the input left after the item it accepts.  The fuel of the three
  mutually recursive functions is twice the length of the text and two more, which no
  text exhausts: a call that passes the fuel on unchanged in size has consumed a byte.
\<close>

definition json_ws :: "char \<Rightarrow> bool" where
  "json_ws c = (c \<in> set [CHR '' '', CHR 0x09, CHR 0x0A, CHR 0x0D])"

definition skip_ws :: "string \<Rightarrow> string" where
  "skip_ws s = dropWhile json_ws s"

definition is_hex :: "char \<Rightarrow> bool" where
  "is_hex c = (let n = (of_char c :: nat) in
     (48 \<le> n \<and> n \<le> 57) \<or> (65 \<le> n \<and> n \<le> 70) \<or> (97 \<le> n \<and> n \<le> 102))"

fun scan_string :: "string \<Rightarrow> string option" where
  "scan_string [] = None"
| "scan_string (c # cs) =
     (if c = CHR 0x22 then Some cs
      else if c = CHR 0x5C then
        (case cs of
           [] \<Rightarrow> None
         | e # r \<Rightarrow>
             if e \<in> set [CHR 0x22, CHR 0x5C, CHR ''/'', CHR ''b'', CHR ''f'', CHR ''n'',
                          CHR ''r'', CHR ''t'']
               then scan_string r
             else if e = CHR ''u'' then
               (case r of
                  h1 # h2 # h3 # h4 # r' \<Rightarrow>
                    if is_hex h1 \<and> is_hex h2 \<and> is_hex h3 \<and> is_hex h4
                      then scan_string r' else None
                | _ \<Rightarrow> None)
             else None)
      else if (of_char c :: nat) < 0x20 then None
      else scan_string cs)"

definition scan_digits1 :: "string \<Rightarrow> string option" where
  "scan_digits1 s =
     (case s of
        [] \<Rightarrow> None
      | c # cs \<Rightarrow> if is_digit c then Some (dropWhile is_digit cs) else None)"

definition scan_exp :: "string \<Rightarrow> string option" where
  "scan_exp s =
     (case s of
        c # cs \<Rightarrow>
          if c = CHR ''e'' \<or> c = CHR ''E'' then
            (case cs of
               d # ds \<Rightarrow>
                 if d = CHR ''+'' \<or> d = CHR ''-'' then scan_digits1 ds else scan_digits1 cs
             | [] \<Rightarrow> None)
          else Some s
      | [] \<Rightarrow> Some s)"

definition scan_frac :: "string \<Rightarrow> string option" where
  "scan_frac s =
     (case s of
        c # cs \<Rightarrow>
          if c = CHR ''.''
            then (case scan_digits1 cs of None \<Rightarrow> None | Some r \<Rightarrow> scan_exp r)
          else scan_exp s
      | [] \<Rightarrow> Some s)"

definition scan_int :: "string \<Rightarrow> string option" where
  "scan_int s =
     (case s of
        c # cs \<Rightarrow>
          if c = CHR ''0'' then scan_frac cs
          else if is_digit c then scan_frac (dropWhile is_digit cs)
          else None
      | [] \<Rightarrow> None)"

definition scan_number :: "string \<Rightarrow> string option" where
  "scan_number s =
     (case s of c # cs \<Rightarrow> if c = CHR ''-'' then scan_int cs else scan_int s | [] \<Rightarrow> None)"

definition scan_literal :: "string \<Rightarrow> string \<Rightarrow> string option" where
  "scan_literal lit s =
     (if take (length lit) s = lit then Some (drop (length lit) s) else None)"

fun scan_value :: "nat \<Rightarrow> string \<Rightarrow> string option"
  and scan_elements :: "nat \<Rightarrow> string \<Rightarrow> string option"
  and scan_members :: "nat \<Rightarrow> string \<Rightarrow> string option" where
  "scan_value 0 s = None"
| "scan_value (Suc n) [] = None"
| "scan_value (Suc n) (c # cs) =
     (if c = CHR ''{'' then
        (case skip_ws cs of
           d # ds \<Rightarrow> if d = CHR ''}'' then Some ds else scan_members n (d # ds)
         | [] \<Rightarrow> None)
      else if c = CHR ''['' then
        (case skip_ws cs of
           d # ds \<Rightarrow> if d = CHR '']'' then Some ds else scan_elements n (d # ds)
         | [] \<Rightarrow> None)
      else if c = CHR 0x22 then scan_string cs
      else if c = CHR ''t'' then scan_literal ''true'' (c # cs)
      else if c = CHR ''f'' then scan_literal ''false'' (c # cs)
      else if c = CHR ''n'' then scan_literal ''null'' (c # cs)
      else scan_number (c # cs))"
| "scan_elements 0 s = None"
| "scan_elements (Suc n) s =
     (case scan_value n s of
        None \<Rightarrow> None
      | Some r \<Rightarrow>
          (case skip_ws r of
             d # ds \<Rightarrow>
               if d = CHR '','' then scan_elements n (skip_ws ds)
               else if d = CHR '']'' then Some ds
               else None
           | [] \<Rightarrow> None))"
| "scan_members 0 s = None"
| "scan_members (Suc n) s =
     (case s of
        q # cs \<Rightarrow>
          if q = CHR 0x22 then
            (case scan_string cs of
               None \<Rightarrow> None
             | Some r \<Rightarrow>
                 (case skip_ws r of
                    k # ks \<Rightarrow>
                      if k = CHR '':'' then
                        (case scan_value n (skip_ws ks) of
                           None \<Rightarrow> None
                         | Some r' \<Rightarrow>
                             (case skip_ws r' of
                                d # ds \<Rightarrow>
                                  if d = CHR '','' then scan_members n (skip_ws ds)
                                  else if d = CHR ''}'' then Some ds
                                  else None
                              | [] \<Rightarrow> None))
                      else None
                  | [] \<Rightarrow> None))
          else None
      | [] \<Rightarrow> None)"

definition Valid :: "string \<Rightarrow> bool" where
  "Valid data =
     (case scan_value (2 * length data + 2) (skip_ws data) of
        None \<Rightarrow> False
      | Some r \<Rightarrow> skip_ws r = [])"

subsection \<open>\<open>json.Marshal\<close>\<close>

text \<open>
  The compact text of a document.  A string is escaped as \<open>encoding/json\<close> does with
  HTML escaping on, which is the setting of \<open>json.Marshal\<close>.  The members of an object
  are written in the order of the list; a caller that marshals a Go map passes them
  sorted by key.
\<close>

definition json_escape_byte :: "char \<Rightarrow> string" where
  "json_escape_byte c =
     (let n = (of_char c :: nat) in
      if c = CHR 0x22 then [CHR 0x5C, CHR 0x22]
      else if c = CHR 0x5C then [CHR 0x5C, CHR 0x5C]
      else if n = 0x08 then [CHR 0x5C, CHR ''b'']
      else if n = 0x0C then [CHR 0x5C, CHR ''f'']
      else if n = 0x0A then [CHR 0x5C, CHR ''n'']
      else if n = 0x0D then [CHR 0x5C, CHR ''r'']
      else if n = 0x09 then [CHR 0x5C, CHR ''t'']
      else if n < 0x20 \<or> c = CHR ''<'' \<or> c = CHR ''>'' \<or> c = CHR ''&''
        then [CHR 0x5C, CHR ''u'', CHR ''0'', CHR ''0'', hex_digit (n div 16), hex_digit n]
      else [c])"

definition json_string :: "string \<Rightarrow> string" where
  "json_string s = [CHR 0x22] @ concat (map json_escape_byte s) @ [CHR 0x22]"

fun Marshal :: "json \<Rightarrow> string" where
  "Marshal JNull = ''null''"
| "Marshal (JBool b) = (if b then ''true'' else ''false'')"
| "Marshal (JNumber i) = Itoa i"
| "Marshal (JString s) = json_string s"
| "Marshal (JArray vs) = ''['' @ Join (map Marshal vs) '','' @ '']''"
| "Marshal (JObject kvs) =
     ''{'' @ Join (map (\<lambda>kv. json_string (fst kv) @ '':'' @ Marshal (snd kv)) kvs) '','' @ ''}''"

section \<open>Paths: \<open>path/filepath\<close> on Unix\<close>

text \<open>
  A path is read as its list of elements, the non-empty pieces between slashes, and
  whether it starts with a slash.  \<open>Clean\<close> drops the \<open>.\<close> elements and resolves each
  \<open>..\<close> against the element before it; \<open>Rel\<close> compares two cleaned paths element by
  element.
\<close>

definition IsAbs :: "string \<Rightarrow> bool" where
  "IsAbs path = HasPrefix path ''/''"

definition elements :: "string \<Rightarrow> string list" where
  "elements path = filter (\<lambda>e. e \<noteq> []) (Split path CHR ''/'')"

fun clean_elements :: "bool \<Rightarrow> string list \<Rightarrow> string list \<Rightarrow> string list" where
  "clean_elements rooted out [] = rev out"
| "clean_elements rooted out (e # es) =
     (if e = ''.'' then clean_elements rooted out es
      else if e = ''..'' then
        (case out of
           [] \<Rightarrow> if rooted then clean_elements rooted out es
                 else clean_elements rooted [e] es
         | l # below \<Rightarrow>
             if l = ''..'' then clean_elements rooted (e # out) es
             else clean_elements rooted below es)
      else clean_elements rooted (e # out) es)"

definition Clean :: "string \<Rightarrow> string" where
  "Clean path =
     (let es = clean_elements (IsAbs path) [] (elements path) in
      if IsAbs path then ''/'' @ Join es ''/''
      else if es = [] then ''.'' else Join es ''/'')"

definition filepath_Join :: "string list \<Rightarrow> string" where
  "filepath_Join elem =
     (let es = filter (\<lambda>e. e \<noteq> []) elem in
      if es = [] then [] else Clean (Join es ''/''))"

fun strip_common :: "string list \<Rightarrow> string list \<Rightarrow> string list \<times> string list" where
  "strip_common (b # bs) (t # ts) = (if b = t then strip_common bs ts else (b # bs, t # ts))"
| "strip_common bs ts = (bs, ts)"

definition Rel :: "string \<Rightarrow> string \<Rightarrow> string + string" where
  "Rel basepath targpath =
     (let base = Clean basepath; targ = Clean targpath in
      if targ = base then Inr ''.''
      else if IsAbs base \<noteq> IsAbs targ
        then Inl (''Rel: can't make '' @ targpath @ '' relative to '' @ basepath)
      else
        (let (bs, ts) = strip_common (elements (if base = ''.'' then [] else base))
                          (elements targ) in
         if bs \<noteq> [] \<and> hd bs = ''..''
           then Inl (''Rel: can't make '' @ targpath @ '' relative to '' @ basepath)
         else if bs \<noteq> [] then Inr (Join (map (\<lambda>_. ''..'') bs @ ts) ''/'')
         else Inr (Join ts ''/'')))"

section \<open>Run status\<close>

definition StatusRunning :: string where "StatusRunning = ''running''"
definition StatusCompleted :: string where "StatusCompleted = ''completed''"
definition StatusFailed :: string where "StatusFailed = ''failed''"
definition StatusMaxTurnsReached :: string where "StatusMaxTurnsReached = ''max_turns_reached''"
definition StatusNoProgressStopped :: string where
  "StatusNoProgressStopped = ''no_progress_stopped''"

section \<open>Data of the agent package\<close>

text \<open>
  An instant of time.  \<open>time.Now\<close> reads the clock of the world, which then moves on.
  Counters are Go's \<open>int\<close>; none of them comes near \<open>2^63\<close>, and they are integers
  here.
\<close>

type_synonym Time = nat

record ToolCallResult =
  tc_ID :: string
  tc_Name :: string
  tc_Arguments :: string

record ChatCompletionResult =
  res_Content :: string
  res_ToolCalls :: "ToolCallResult list"

text \<open>
  \<open>tui.ToolCallInfo\<close> and \<open>tui.ChatMessage\<close> are declared outside the files at hand; the
  fields are those the agent and the provider adapters read and write.
\<close>

record ToolCallInfo =
  tci_ID :: string
  tci_Name :: string
  tci_Arguments :: string

record ChatMessage =
  msg_Role :: string
  msg_Content :: string
  msg_ToolCalls :: "ToolCallInfo list"
  msg_ToolCallID :: string
  msg_Name :: string
  msg_Timestamp :: Time

record Options =
  Workspace :: string
  MaxTurns :: int
  MaxToolCallsPerTurn :: int
  MaxConsecutiveNoToolTurns :: int
  RequestTimeout :: int
  ToolTimeout :: int
  RequireCompletionMarker :: bool
  CompletionMarker :: string
  DisableCheckpoints :: bool
  Verbose :: bool

definition DefaultOptions :: Options where
  "DefaultOptions = \<lparr>Workspace = [], MaxTurns = 12, MaxToolCallsPerTurn = 8,
     MaxConsecutiveNoToolTurns = 3, RequestTimeout = 90 * 1000000000,
     ToolTimeout = 45 * 1000000000, RequireCompletionMarker = True,
     CompletionMarker = ''TASK_COMPLETE:'', DisableCheckpoints = False, Verbose = True\<rparr>"

record Step =
  step_Turn :: int
  step_Type :: string
  step_Name :: string
  step_Content :: string
  step_ToolCall :: string
  step_Timestamp :: Time

record RunState =
  RunID :: string
  Goal :: string
  Status :: string
  CreatedAt :: Time
  UpdatedAt :: Time
  CompletedAt :: "Time option"
  Turn :: int
  ConsecutiveNoToolTurns :: int
  ToolCallCount :: int
  Messages :: "ChatMessage list"
  Steps :: "Step list"
  LastAssistantResponse :: string
  Error :: string
  Opts :: Options

section \<open>The world outside the run state\<close>

text \<open>
  The clock, the files of the checkpoint directory (a file holds a JSON document; a path
  that cannot be written makes \<open>os.WriteFile\<close> fail), the log of the requests sent to
  the provider and of the skill handlers invoked, and whatever else the provider and
  the skills depend on and change.
\<close>

record 'x world =
  clock :: Time
  files :: "string \<rightharpoonup> json"
  can_write :: "string \<Rightarrow> bool"
  requests :: "ChatMessage list list"
  skill_calls :: "(string \<times> string) list"
  ext :: 'x

definition time_Now :: "'x world \<Rightarrow> Time \<times> 'x world" where
  "time_Now w = (clock w, w\<lparr>clock := Suc (clock w)\<rparr>)"

section \<open>Checkpoint store\<close>

subsection \<open>The JSON form of a run state\<close>

text \<open>
  The members follow the \<open>json\<close> tags of \<open>types.go\<close>: a field tagged \<open>omitempty\<close> is
  left out when it is empty, and a member that is missing or \<open>null\<close> leaves the zero
  value in the field when a document is read.  An instant stands for its RFC 3339 text.
  The JSON form of a chat message is a parameter.
\<close>

definition omit_empty :: "string \<Rightarrow> string \<Rightarrow> (string \<times> json) list" where
  "omit_empty key s = (if s = [] then [] else [(key, JString s)])"

definition encode_Options :: "Options \<Rightarrow> json" where
  "encode_Options opts =
     JObject [(''workspace'', JString (Workspace opts)),
              (''max_turns'', JNumber (MaxTurns opts)),
              (''max_tool_calls_per_turn'', JNumber (MaxToolCallsPerTurn opts)),
              (''max_consecutive_no_tool_turns'', JNumber (MaxConsecutiveNoToolTurns opts)),
              (''request_timeout'', JNumber (RequestTimeout opts)),
              (''tool_timeout'', JNumber (ToolTimeout opts)),
              (''require_completion_marker'', JBool (RequireCompletionMarker opts)),
              (''completion_marker'', JString (CompletionMarker opts)),
              (''disable_checkpoints'', JBool (DisableCheckpoints opts)),
              (''verbose'', JBool (Verbose opts))]"

definition encode_Step :: "Step \<Rightarrow> json" where
  "encode_Step s =
     JObject ([(''turn'', JNumber (step_Turn s)), (''type'', JString (step_Type s))]
              @ omit_empty ''name'' (step_Name s)
              @ omit_empty ''content'' (step_Content s)
              @ omit_empty ''tool_call_id'' (step_ToolCall s)
              @ [(''timestamp'', JNumber (int (step_Timestamp s)))])"

definition encode_RunState :: "(ChatMessage \<Rightarrow> json) \<Rightarrow> RunState \<Rightarrow> json" where
  "encode_RunState enc st =
     JObject ([(''run_id'', JString (RunID st)),
               (''goal'', JString (Goal st)),
               (''status'', JString (Status st)),
               (''created_at'', JNumber (int (CreatedAt st))),
               (''updated_at'', JNumber (int (UpdatedAt st)))]
              @ (case CompletedAt st of None \<Rightarrow> []
                 | Some t \<Rightarrow> [(''completed_at'', JNumber (int t))])
              @ [(''turn'', JNumber (Turn st)),
                 (''consecutive_no_tool_turns'', JNumber (ConsecutiveNoToolTurns st)),
                 (''tool_call_count'', JNumber (ToolCallCount st)),
                 (''messages'', JArray (map enc (Messages st))),
                 (''steps'', JArray (map encode_Step (Steps st)))]
              @ omit_empty ''last_assistant_response'' (LastAssistantResponse st)
              @ omit_empty ''error'' (Error st)
              @ [(''options'', encode_Options (Opts st))])"

text \<open>Reading a member: the last one of that name counts.\<close>

definition member :: "(string \<times> json) list \<Rightarrow> string \<Rightarrow> json option" where
  "member kvs key = map_of (rev kvs) key"

fun dec_string :: "json option \<Rightarrow> string option" where
  "dec_string None = Some []"
| "dec_string (Some JNull) = Some []"
| "dec_string (Some (JString s)) = Some s"
| "dec_string (Some _) = None"

fun dec_int :: "json option \<Rightarrow> int option" where
  "dec_int None = Some 0"
| "dec_int (Some JNull) = Some 0"
| "dec_int (Some (JNumber i)) = Some i"
| "dec_int (Some _) = None"

fun dec_bool :: "json option \<Rightarrow> bool option" where
  "dec_bool None = Some False"
| "dec_bool (Some JNull) = Some False"
| "dec_bool (Some (JBool b)) = Some b"
| "dec_bool (Some _) = None"

fun dec_time :: "json option \<Rightarrow> Time option" where
  "dec_time None = Some 0"
| "dec_time (Some JNull) = Some 0"
| "dec_time (Some (JNumber i)) = (if 0 \<le> i then Some (nat i) else None)"
| "dec_time (Some _) = None"

fun dec_time_ptr :: "json option \<Rightarrow> Time option option" where
  "dec_time_ptr None = Some None"
| "dec_time_ptr (Some JNull) = Some None"
| "dec_time_ptr (Some (JNumber i)) = (if 0 \<le> i then Some (Some (nat i)) else None)"
| "dec_time_ptr (Some _) = None"

fun dec_list :: "(json \<Rightarrow> 'a option) \<Rightarrow> json option \<Rightarrow> 'a list option" where
  "dec_list f None = Some []"
| "dec_list f (Some JNull) = Some []"
| "dec_list f (Some (JArray vs)) = those (map f vs)"
| "dec_list f (Some _) = None"

definition zero_Options :: Options where
  "zero_Options = \<lparr>Workspace = [], MaxTurns = 0, MaxToolCallsPerTurn = 0,
     MaxConsecutiveNoToolTurns = 0, RequestTimeout = 0, ToolTimeout = 0,
     RequireCompletionMarker = False, CompletionMarker = [], DisableCheckpoints = False,
     Verbose = False\<rparr>"

fun decode_Options :: "json option \<Rightarrow> Options option" where
  "decode_Options None = Some zero_Options"
| "decode_Options (Some JNull) = Some zero_Options"
| "decode_Options (Some (JObject kvs)) =
     do {
       workspace \<leftarrow> dec_string (member kvs ''workspace'');
       max_turns \<leftarrow> dec_int (member kvs ''max_turns'');
       max_tool_calls \<leftarrow> dec_int (member kvs ''max_tool_calls_per_turn'');
       max_no_tool \<leftarrow> dec_int (member kvs ''max_consecutive_no_tool_turns'');
       request_timeout \<leftarrow> dec_int (member kvs ''request_timeout'');
       tool_timeout \<leftarrow> dec_int (member kvs ''tool_timeout'');
       require_marker \<leftarrow> dec_bool (member kvs ''require_completion_marker'');
       marker \<leftarrow> dec_string (member kvs ''completion_marker'');
       disable_checkpoints \<leftarrow> dec_bool (member kvs ''disable_checkpoints'');
       verbose \<leftarrow> dec_bool (member kvs ''verbose'');
       Some \<lparr>Workspace = workspace, MaxTurns = max_turns,
             MaxToolCallsPerTurn = max_tool_calls,
             MaxConsecutiveNoToolTurns = max_no_tool, RequestTimeout = request_timeout,
             ToolTimeout = tool_timeout, RequireCompletionMarker = require_marker,
             CompletionMarker = marker, DisableCheckpoints = disable_checkpoints,
             Verbose = verbose\<rparr>
     }"
| "decode_Options (Some _) = None"

fun decode_Step :: "json \<Rightarrow> Step option" where
  "decode_Step (JObject kvs) =
     do {
       turn \<leftarrow> dec_int (member kvs ''turn'');
       type \<leftarrow> dec_string (member kvs ''type'');
       name \<leftarrow> dec_string (member kvs ''name'');
       content \<leftarrow> dec_string (member kvs ''content'');
       tool_call \<leftarrow> dec_string (member kvs ''tool_call_id'');
       timestamp \<leftarrow> dec_time (member kvs ''timestamp'');
       Some \<lparr>step_Turn = turn, step_Type = type, step_Name = name, step_Content = content,
             step_ToolCall = tool_call, step_Timestamp = timestamp\<rparr>
     }"
| "decode_Step JNull =
     Some \<lparr>step_Turn = 0, step_Type = [], step_Name = [], step_Content = [],
           step_ToolCall = [], step_Timestamp = 0\<rparr>"
| "decode_Step _ = None"

definition zero_RunState :: RunState where
  "zero_RunState = \<lparr>RunID = [], Goal = [], Status = [], CreatedAt = 0, UpdatedAt = 0,
     CompletedAt = None, Turn = 0, ConsecutiveNoToolTurns = 0, ToolCallCount = 0,
     Messages = [], Steps = [], LastAssistantResponse = [], Error = [],
     Opts = zero_Options\<rparr>"

fun decode_RunState :: "(json \<Rightarrow> ChatMessage option) \<Rightarrow> json \<Rightarrow> RunState option" where
  "decode_RunState dec (JObject kvs) =
     do {
       run_id \<leftarrow> dec_string (member kvs ''run_id'');
       goal \<leftarrow> dec_string (member kvs ''goal'');
       status \<leftarrow> dec_string (member kvs ''status'');
       created_at \<leftarrow> dec_time (member kvs ''created_at'');
       updated_at \<leftarrow> dec_time (member kvs ''updated_at'');
       completed_at \<leftarrow> dec_time_ptr (member kvs ''completed_at'');
       turn \<leftarrow> dec_int (member kvs ''turn'');
       no_tool_turns \<leftarrow> dec_int (member kvs ''consecutive_no_tool_turns'');
       tool_call_count \<leftarrow> dec_int (member kvs ''tool_call_count'');
       messages \<leftarrow> dec_list dec (member kvs ''messages'');
       steps \<leftarrow> dec_list decode_Step (member kvs ''steps'');
       last_response \<leftarrow> dec_string (member kvs ''last_assistant_response'');
       error \<leftarrow> dec_string (member kvs ''error'');
       opts \<leftarrow> decode_Options (member kvs ''options'');
       Some \<lparr>RunID = run_id, Goal = goal, Status = status, CreatedAt = created_at,
             UpdatedAt = updated_at, CompletedAt = completed_at, Turn = turn,
             ConsecutiveNoToolTurns = no_tool_turns, ToolCallCount = tool_call_count,
             Messages = messages, Steps = steps, LastAssistantResponse = last_response,
             Error = error, Opts = opts\<rparr>
     }"
| "decode_RunState dec JNull = Some zero_RunState"
| "decode_RunState dec _ = None"

subsection \<open>\<open>Save\<close> and \<open>Load\<close>\<close>

record CheckpointStore =
  runsDir :: string

definition Save ::
  "(ChatMessage \<Rightarrow> json) \<Rightarrow> CheckpointStore \<Rightarrow> RunState \<Rightarrow> 'x world
     \<Rightarrow> string option \<times> RunState \<times> 'x world" where
  "Save enc s state w =
     (let (t, w1) = time_Now w;
          state1 = state\<lparr>UpdatedAt := t\<rparr>;
          data = encode_RunState enc state1;
          path = filepath_Join [runsDir s, RunID state1 @ ''.json'']
      in if can_write w1 path
           then (None, state1, w1\<lparr>files := (files w1)(path \<mapsto> data)\<rparr>)
         else (Some (''write checkpoint: open '' @ path @ '': permission denied''),
               state1, w1))"

definition Load ::
  "(json \<Rightarrow> ChatMessage option) \<Rightarrow> CheckpointStore \<Rightarrow> string \<Rightarrow> 'x world
     \<Rightarrow> string + RunState" where
  "Load dec s runID w =
     (if runID = [] then Inl ''run id is required''
      else
        (let path = filepath_Join [runsDir s, runID @ ''.json''] in
         case files w path of
           None \<Rightarrow>
             Inl (''read checkpoint: open '' @ path @ '': no such file or directory'')
         | Some data \<Rightarrow>
             (case decode_RunState dec data of
                None \<Rightarrow> Inl ''parse checkpoint: cannot unmarshal''
              | Some state \<Rightarrow> Inr state)))"

section \<open>Runner\<close>

text \<open>
  Of the fields of \<open>Runner\<close>, the client is its two operations: \<open>SendMessageSync\<close>, the
  request to the provider, and \<open>ExecuteSkill\<close>, which parses the arguments and runs the
  handler of a skill.  Both are outside the files at hand and both may depend on and
  change the outside world.  A result of \<open>ExecuteSkill\<close> is the pair of Go: the
  execution, which may be nil, and the error, which may be nil.  The text written to
  \<open>out\<close> and \<open>errOut\<close> is left out, and so are the contexts, whose deadlines act inside
  the two operations.
\<close>

datatype skill_value = ResultString string | ResultValue json | ResultUnmarshalable string

record ExecutionResult =
  exec_Success :: bool
  exec_Result :: skill_value
  exec_Error :: string

record 'x Runner =
  SendMessageSync :: "'x \<Rightarrow> ChatMessage list \<Rightarrow> (string + ChatCompletionResult) \<times> 'x"
  ExecuteSkill :: "'x \<Rightarrow> string \<Rightarrow> string \<Rightarrow> (ExecutionResult option \<times> string option) \<times> 'x"
  EncodeMessage :: "ChatMessage \<Rightarrow> json"
  DecodeMessage :: "json \<Rightarrow> ChatMessage option"
  FormatTime :: "Time \<Rightarrow> string"
  store :: CheckpointStore
  options :: Options

definition client_SendMessageSync ::
  "'x Runner \<Rightarrow> ChatMessage list \<Rightarrow> 'x world \<Rightarrow> (string + ChatCompletionResult) \<times> 'x world" where
  "client_SendMessageSync r messages w =
     (let (result, x) = SendMessageSync r (ext w) messages
      in (result, w\<lparr>requests := requests w @ [messages], ext := x\<rparr>))"

definition client_ExecuteSkill ::
  "'x Runner \<Rightarrow> string \<Rightarrow> string \<Rightarrow> 'x world
     \<Rightarrow> (ExecutionResult option \<times> string option) \<times> 'x world" where
  "client_ExecuteSkill r name argsJSON w =
     (let (result, x) = ExecuteSkill r (ext w) name argsJSON
      in (result, w\<lparr>skill_calls := skill_calls w @ [(name, argsJSON)], ext := x\<rparr>))"

definition error_payload :: "string \<Rightarrow> string \<Rightarrow> string" where
  "error_payload toolName message =
     Marshal (JObject [(''error'', JBool True), (''message'', JString message),
                       (''tool'', JString toolName)])"

definition formatToolResult ::
  "string \<Rightarrow> ExecutionResult option \<Rightarrow> string option \<Rightarrow> string" where
  "formatToolResult toolName execution err =
     (case err of
        Some e \<Rightarrow> error_payload toolName e
      | None \<Rightarrow>
          (case execution of
             None \<Rightarrow> error_payload toolName ''nil execution result''
           | Some ex \<Rightarrow>
               if \<not> exec_Success ex then error_payload toolName (exec_Error ex)
               else
                 (case exec_Result ex of
                    ResultString v \<Rightarrow> v
                  | ResultValue v \<Rightarrow> Marshal v
                  | ResultUnmarshalable marshalErr \<Rightarrow>
                      error_payload toolName
                        (''failed to marshal tool result: '' @ marshalErr))))"

definition truncateForStep :: "string \<Rightarrow> string" where
  "truncateForStep s0 =
     (let s = TrimSpace s0 in if length s > 200 then take 200 s @ ''...'' else s)"

definition invalid_arguments_payload :: "string \<Rightarrow> string" where
  \<open>invalid_arguments_payload toolName =
     ''{"error": true, "message": "invalid tool arguments JSON", "tool": '' @ Quote toolName
       @ ''}''\<close>

definition executeToolCall ::
  "'x Runner \<Rightarrow> RunState \<Rightarrow> ToolCallResult \<Rightarrow> 'x world \<Rightarrow> ChatMessage \<times> RunState \<times> 'x world" where
  "executeToolCall r state tc w =
     (let toolName = tc_Name tc;
          argsJSON = tc_Arguments tc;
          (resultContent, w1) =
            (if \<not> Valid argsJSON then (invalid_arguments_payload toolName, w)
             else
               (let ((execution, err), w') = client_ExecuteSkill r toolName argsJSON w
                in (formatToolResult toolName execution err, w')));
          (t1, w2) = time_Now w1;
          state1 = state\<lparr>Steps := Steps state @
                     [\<lparr>step_Turn = Turn state, step_Type = ''tool'', step_Name = toolName,
                       step_Content = truncateForStep resultContent,
                       step_ToolCall = tc_ID tc, step_Timestamp = t1\<rparr>]\<rparr>;
          (t2, w3) = time_Now w2
      in (\<lparr>msg_Role = ''tool'', msg_Content = resultContent, msg_ToolCalls = [],
           msg_ToolCallID = tc_ID tc, msg_Name = toolName, msg_Timestamp = t2\<rparr>,
          state1, w3))"

definition completeState :: "RunState \<Rightarrow> 'x world \<Rightarrow> RunState \<times> 'x world" where
  "completeState state w =
     (let (now, w1) = time_Now w
      in (state\<lparr>Status := StatusCompleted, CompletedAt := Some now, UpdatedAt := now\<rparr>, w1))"

definition isCompletionResponse :: "string \<Rightarrow> Options \<Rightarrow> bool" where
  "isCompletionResponse content opts =
     (let text = TrimSpace content in
      if text = [] then False
      else if CompletionMarker opts \<noteq> []
              \<and> Contains (ToUpper text) (ToUpper (CompletionMarker opts)) then True
      else \<not> RequireCompletionMarker opts)"

definition buildContinuePrompt :: "Options \<Rightarrow> string" where
  "buildContinuePrompt opts =
     (let marker = (if CompletionMarker opts = [] then ''TASK_COMPLETE:''
                    else CompletionMarker opts)
      in ''Continue working toward the goal. Use tools when needed. If you are done, respond with ''
         @ [CHR 0x27] @ marker @ [CHR 0x27]
         @ '' followed by final deliverables and validation notes.'')"

definition convertToolCalls :: "ToolCallResult list \<Rightarrow> ToolCallInfo list" where
  "convertToolCalls calls =
     map (\<lambda>c. \<lparr>tci_ID = tc_ID c, tci_Name = tc_Name c, tci_Arguments = tc_Arguments c\<rparr>) calls"

text \<open>
  \<open>r.store.Save\<close> guarded by \<open>DisableCheckpoints\<close>; the error of \<open>Save\<close> goes to \<open>errOut\<close>
  or is dropped.
\<close>

definition save_checkpoint :: "'x Runner \<Rightarrow> RunState \<Rightarrow> 'x world \<Rightarrow> RunState \<times> 'x world" where
  "save_checkpoint r state w =
     (if \<not> DisableCheckpoints (Opts state)
        then (let (err, state1, w1) = Save (EncodeMessage r) (store r) state w in (state1, w1))
      else (state, w))"

text \<open>
  What one pass through the body of the loop of \<open>runState\<close> ends in: the next pass, a
  return of the state with or without an error, or a panic of the slice expression
  \<open>toolCalls[:MaxToolCallsPerTurn]\<close>.
\<close>

datatype turn_outcome = Continue RunState | Return RunState "string option" | Panicked

text \<open>The branch \<open>len(result.ToolCalls) == 0\<close>.\<close>

definition no_tool_turn :: "'x Runner \<Rightarrow> RunState \<Rightarrow> 'x world \<Rightarrow> turn_outcome \<times> 'x world" where
  "no_tool_turn r state0 w =
     (let state = state0\<lparr>ConsecutiveNoToolTurns := ConsecutiveNoToolTurns state0 + 1\<rparr> in
      if isCompletionResponse (LastAssistantResponse state) (Opts state) then
        (let (state1, w1) = completeState state w;
             (state2, w2) = save_checkpoint r state1 w1
         in (Return state2 None, w2))
      else if ConsecutiveNoToolTurns state \<ge> MaxConsecutiveNoToolTurns (Opts state) then
        (let (now, w1) = time_Now w;
             state1 = state\<lparr>Status := StatusNoProgressStopped, CompletedAt := Some now\<rparr>;
             (state2, w2) = save_checkpoint r state1 w1
         in (Return state2 None, w2))
      else
        (let (now, w1) = time_Now w;
             state1 = state\<lparr>Messages := Messages state @
                        [\<lparr>msg_Role = ''user'', msg_Content = buildContinuePrompt (Opts state),
                          msg_ToolCalls = [], msg_ToolCallID = [], msg_Name = [],
                          msg_Timestamp = now\<rparr>]\<rparr>;
             (state2, w2) = save_checkpoint r state1 w1
         in (Continue state2, w2)))"
text \<open>The loop over the tool calls of a turn.\<close>

fun dispatch ::
  "'x Runner \<Rightarrow> RunState \<Rightarrow> ToolCallResult list \<Rightarrow> 'x world \<Rightarrow> RunState \<times> 'x world" where
  "dispatch r state [] w = (state, w)"
| "dispatch r state (tc # rest) w =
     (let (toolMsg, state1, w1) = executeToolCall r state tc w;
          state2 = state1\<lparr>Messages := Messages state1 @ [toolMsg],
                          ToolCallCount := ToolCallCount state1 + 1\<rparr>
      in dispatch r state2 rest w1)"

text \<open>
  \<open>toolCalls[:MaxToolCallsPerTurn]\<close> when there are more calls than the limit; \<open>None\<close>
  is the panic of a negative bound.
\<close>

definition cap_tool_calls :: "ToolCallResult list \<Rightarrow> int \<Rightarrow> ToolCallResult list option" where
  "cap_tool_calls toolCalls limit =
     (if int (length toolCalls) > limit
        then (if limit < 0 then None else Some (take (nat limit) toolCalls))
      else Some toolCalls)"

definition tool_turn ::
  "'x Runner \<Rightarrow> RunState \<Rightarrow> ToolCallResult list \<Rightarrow> 'x world \<Rightarrow> turn_outcome \<times> 'x world" where
  "tool_turn r state0 calls w =
     (let state = state0\<lparr>ConsecutiveNoToolTurns := 0\<rparr> in
      case cap_tool_calls calls (MaxToolCallsPerTurn (Opts state)) of
        None \<Rightarrow> (Panicked, w)
      | Some toolCalls \<Rightarrow>
          (let (state1, w1) = dispatch r state toolCalls w;
               (state2, w2) = save_checkpoint r state1 w1
           in (Continue state2, w2)))"

text \<open>
  The body of the loop after \<open>state.Turn++\<close> and \<open>state.Status = StatusRunning\<close>.  The
  checkpoint of a failed request is written whether checkpoints are disabled or not.
\<close>

definition run_turn :: "'x Runner \<Rightarrow> RunState \<Rightarrow> 'x world \<Rightarrow> turn_outcome \<times> 'x world" where
  "run_turn r state w =
     (let (result, w1) = client_SendMessageSync r (Messages state) w in
      case result of
        Inl err \<Rightarrow>
          (let (now, w2) = time_Now w1;
               state1 = state\<lparr>Status := StatusFailed, Error := err, UpdatedAt := now\<rparr>;
               (saveErr, state2, w3) = Save (EncodeMessage r) (store r) state1 w2
           in (Return state2 (Some err), w3))
      | Inr res \<Rightarrow>
          (let (t1, w2) = time_Now w1;
               assistantMsg = \<lparr>msg_Role = ''assistant'', msg_Content = res_Content res,
                                msg_ToolCalls = convertToolCalls (res_ToolCalls res),
                                msg_ToolCallID = [], msg_Name = [], msg_Timestamp = t1\<rparr>;
               state1 = state\<lparr>Messages := Messages state @ [assistantMsg],
                               LastAssistantResponse := TrimSpace (res_Content res)\<rparr>;
               (t2, w3) = time_Now w2;
               state2 = state1\<lparr>Steps := Steps state1 @
                          [\<lparr>step_Turn = Turn state1, step_Type = ''assistant'', step_Name = [],
                            step_Content = LastAssistantResponse state1, step_ToolCall = [],
                            step_Timestamp = t2\<rparr>]\<rparr>
           in if res_ToolCalls res = [] then no_tool_turn r state2 w3
              else tool_turn r state2 (res_ToolCalls res) w3))"

text \<open>
  What \<open>runState\<close>, \<open>Resume\<close> and \<open>RunGoal\<close> return: the state (nil when the run never
  started) and the error, or nothing when the run panicked.
\<close>

datatype run_result = Result "RunState option" "string option" | Crash

function runState_loop :: "'x Runner \<Rightarrow> RunState \<Rightarrow> 'x world \<Rightarrow> run_result \<times> 'x world" where
  "runState_loop r state w =
     (if Turn state < MaxTurns (Opts state) then
        (case run_turn r (state\<lparr>Turn := Turn state + 1, Status := StatusRunning\<rparr>) w of
           (Continue state1, w1) \<Rightarrow> runState_loop r state1 w1
         | (Return state1 err, w1) \<Rightarrow> (Result (Some state1) err, w1)
         | (Panicked, w1) \<Rightarrow> (Crash, w1))
      else
        (let state1 = state\<lparr>Status := StatusMaxTurnsReached\<rparr>;
             (now, w1) = time_Now w;
             state2 = state1\<lparr>CompletedAt := Some now\<rparr>;
             (state3, w2) = save_checkpoint r state2 w1
         in (Result (Some state3) None, w2)))"
  by pat_completeness auto
termination
proof (relation "measure (\<lambda>(r, state, w). nat (MaxTurns (Opts state) - Turn state))")
  show "wf (measure (\<lambda>(r :: 'x Runner, state, w :: 'x world).
          nat (MaxTurns (Opts state) - Turn state)))"
    by simp
next
  fix r :: "'x Runner" and state :: RunState and w :: "'x world"
    and out :: turn_outcome and w1 :: "'x world" and state1
  assume lt: "Turn state < MaxTurns (Opts state)"
    and p: "(out, w1) = run_turn r (state\<lparr>Turn := Turn state + 1, Status := StatusRunning\<rparr>) w"
    and c: "out = Continue state1"
  have save: "Turn (fst (save_checkpoint r s v)) = Turn s
      \<and> Opts (fst (save_checkpoint r s v)) = Opts s" for s and v :: "'x world"
    by (simp add: save_checkpoint_def Save_def time_Now_def Let_def split: prod.splits)
  have exec: "Turn (fst (snd (executeToolCall r s tc v))) = Turn s
      \<and> Opts (fst (snd (executeToolCall r s tc v))) = Opts s" for s tc and v :: "'x world"
    by (simp add: executeToolCall_def time_Now_def Let_def split: prod.splits)
  have disp: "Turn (fst (dispatch r s tcs v)) = Turn s
      \<and> Opts (fst (dispatch r s tcs v)) = Opts s" for s tcs and v :: "'x world"
  proof (induction tcs arbitrary: s v)
    case Nil
    show ?case by simp
  next
    case (Cons tc tcs)
    obtain m s1 v1 where e: "executeToolCall r s tc v = (m, s1, v1)"
      by (cases "executeToolCall r s tc v") auto
    with exec [of s tc v] have "Turn s1 = Turn s" "Opts s1 = Opts s" by simp_all
    with e Cons.IH show ?case by (simp add: Let_def)
  qed
  have notool: "no_tool_turn r s v = (Continue s', v') \<Longrightarrow> Turn s' = Turn s \<and> Opts s' = Opts s"
    for s s' and v v' :: "'x world"
  proof -
    assume a: "no_tool_turn r s v = (Continue s', v')"
    let ?st = "s\<lparr>ConsecutiveNoToolTurns := ConsecutiveNoToolTurns s + 1,
        Messages := Messages s @
          [\<lparr>msg_Role = ''user'', msg_Content = buildContinuePrompt (Opts s),
            msg_ToolCalls = [], msg_ToolCallID = [], msg_Name = [],
            msg_Timestamp = clock v\<rparr>]\<rparr>"
    from a have "s' = fst (save_checkpoint r ?st (v\<lparr>clock := Suc (clock v)\<rparr>))"
      by (auto simp: no_tool_turn_def Let_def time_Now_def completeState_def
            split: if_splits prod.splits)
    with save [of ?st] show ?thesis by simp
  qed
  have tool: "tool_turn r s tcs v = (Continue s', v') \<Longrightarrow> Turn s' = Turn s \<and> Opts s' = Opts s"
    for s s' tcs and v v' :: "'x world"
  proof -
    assume a: "tool_turn r s tcs v = (Continue s', v')"
    then obtain capped s1 v1 where d: "dispatch r (s\<lparr>ConsecutiveNoToolTurns := 0\<rparr>) capped v = (s1, v1)"
      and sv: "save_checkpoint r s1 v1 = (s', v')"
      by (auto simp: tool_turn_def Let_def split: option.splits prod.splits)
    from d disp [of "s\<lparr>ConsecutiveNoToolTurns := 0\<rparr>" capped v]
    have "Turn s1 = Turn s \<and> Opts s1 = Opts s" by simp
    with sv save [of s1 v1] show ?thesis by simp
  qed
  have turn: "run_turn r s v = (Continue s', v') \<Longrightarrow> Turn s' = Turn s \<and> Opts s' = Opts s"
    for s s' and v v' :: "'x world"
    by (auto simp: run_turn_def Let_def time_Now_def
          split: prod.splits sum.splits if_splits dest!: notool tool)
  from p c have "run_turn r (state\<lparr>Turn := Turn state + 1, Status := StatusRunning\<rparr>) w
      = (Continue state1, w1)" by simp
  from turn [OF this] have "Turn state1 = Turn state + 1" "Opts state1 = Opts state"
    by simp_all
  with lt show "((r, state1, w1), (r, state, w))
      \<in> measure (\<lambda>(r, state, w). nat (MaxTurns (Opts state) - Turn state))"
    by simp
qed
declare runState_loop.simps [simp del]

definition runState :: "'x Runner \<Rightarrow> RunState \<Rightarrow> 'x world \<Rightarrow> run_result \<times> 'x world" where
  "runState r state w =
     (let (state1, w1) = save_checkpoint r state w in runState_loop r state1 w1)"

definition generateRunID :: "'x Runner \<Rightarrow> Time \<Rightarrow> string" where
  "generateRunID r t = FormatTime r t"

definition NewRunState :: "'x Runner \<Rightarrow> string \<Rightarrow> Options \<Rightarrow> 'x world \<Rightarrow> RunState \<times> 'x world" where
  "NewRunState r goal opts w =
     (let (now, w1) = time_Now w
      in (\<lparr>RunID = generateRunID r now, Goal = goal, Status = StatusRunning,
           CreatedAt = now, UpdatedAt = now, CompletedAt = None, Turn = 0,
           ConsecutiveNoToolTurns = 0, ToolCallCount = 0, Messages = [], Steps = [],
           LastAssistantResponse = [], Error = [], Opts = opts\<rparr>, w1))"

definition RunGoal :: "'x Runner \<Rightarrow> string \<Rightarrow> 'x world \<Rightarrow> run_result \<times> 'x world" where
  "RunGoal r goal0 w =
     (let goal = TrimSpace goal0 in
      if goal = [] then (Result None (Some ''goal is required''), w)
      else
        (let (state, w1) = NewRunState r goal (options r) w;
             (t1, w2) = time_Now w1;
             state1 = state\<lparr>Messages := Messages state @
                        [\<lparr>msg_Role = ''user'', msg_Content = goal, msg_ToolCalls = [],
                          msg_ToolCallID = [], msg_Name = [], msg_Timestamp = t1\<rparr>]\<rparr>;
             (t2, w3) = time_Now w2;
             state2 = state1\<lparr>Steps := Steps state1 @
                        [\<lparr>step_Turn = 0, step_Type = ''goal'', step_Name = [],
                          step_Content = goal, step_ToolCall = [], step_Timestamp = t2\<rparr>]\<rparr>
         in runState r state2 w3))"

text \<open>The two repairs that \<open>Resume\<close> makes to the options of a loaded state.\<close>

definition resume_options :: "'x Runner \<Rightarrow> RunState \<Rightarrow> RunState" where
  "resume_options r state =
     (let state1 = (if Workspace (Opts state) = []
                    then state\<lparr>Opts := (Opts state)\<lparr>Workspace := Workspace (options r)\<rparr>\<rparr>
                    else state)
      in if CompletionMarker (Opts state1) = []
           then state1\<lparr>Opts := (Opts state1)\<lparr>CompletionMarker := CompletionMarker (options r)\<rparr>\<rparr>
         else state1)"

definition Resume :: "'x Runner \<Rightarrow> string \<Rightarrow> 'x world \<Rightarrow> run_result \<times> 'x world" where
  "Resume r runID w =
     (case Load (DecodeMessage r) (store r) runID w of
        Inl err \<Rightarrow> (Result None (Some err), w)
      | Inr state \<Rightarrow> runState r (resume_options r state) w)"

subsection \<open>The pairing of tool calls and tool messages\<close>

text \<open>
  \<open>answered calls ms\<close>: the messages \<open>ms\<close> start with one tool message for each of the
  calls, in the order of the calls and with their ids.  \<open>paired ms\<close>: every assistant
  message of \<open>ms\<close> that carries tool calls is followed at once by their answers.
\<close>

fun answered :: "ToolCallInfo list \<Rightarrow> ChatMessage list \<Rightarrow> bool" where
  "answered [] ms = True"
| "answered (c # cs) [] = False"
| "answered (c # cs) (m # ms) =
     (msg_Role m = ''tool'' \<and> msg_ToolCallID m = tci_ID c \<and> answered cs ms)"

fun paired :: "ChatMessage list \<Rightarrow> bool" where
  "paired [] = True"
| "paired (m # ms) =
     ((msg_Role m = ''assistant'' \<and> msg_ToolCalls m \<noteq> [] \<longrightarrow> answered (msg_ToolCalls m) ms)
      \<and> paired ms)"

section \<open>Eval harness: scoring a case\<close>





section \<open>Workspace development tools\<close>

definition maxReadBytes :: nat where "maxReadBytes = 200000"
definition maxCommandOutput :: nat where "maxCommandOutput = 12000"

definition resolveWorkspacePath :: "string \<Rightarrow> string \<Rightarrow> string + string" where
  "resolveWorkspacePath workspace0 input0 =
     (let workspace = Clean workspace0;
          input = (if input0 = [] then ''.'' else input0);
          candidate = (if IsAbs input then Clean input
                       else Clean (filepath_Join [workspace, input]))
      in case Rel workspace candidate of
           Inl err \<Rightarrow> Inl err
         | Inr rel \<Rightarrow>
             if rel = ''..'' \<or> HasPrefix rel ''../''
               then Inl (''path escapes workspace: '' @ input)
             else Inr candidate)"

text \<open>
  The arguments of a handler, a Go \<open>map[string]interface{}\<close>.  \<open>ArgNumber n\<close> is a
  value of one of the types \<open>int\<close>, \<open>int32\<close>, \<open>int64\<close>, \<open>float32\<close> and \<open>float64\<close> whose
  conversion to \<open>int\<close> is \<open>n\<close>; \<open>ArgOther\<close> is a value of any other type that is
  neither a string nor a boolean.
\<close>

datatype argval = ArgString string | ArgBool bool | ArgNumber int | ArgOther

definition getStringArg :: "(string \<rightharpoonup> argval) \<Rightarrow> string \<Rightarrow> string \<Rightarrow> string" where
  "getStringArg args key fallback =
     (case args key of Some (ArgString s) \<Rightarrow> s | _ \<Rightarrow> fallback)"

definition getIntArg :: "(string \<rightharpoonup> argval) \<Rightarrow> string \<Rightarrow> int \<Rightarrow> int" where
  "getIntArg args key fallback =
     (case args key of
        Some (ArgNumber n) \<Rightarrow> n
      | Some (ArgString s) \<Rightarrow> (case Atoi (TrimSpace s) of Some parsed \<Rightarrow> parsed | None \<Rightarrow> fallback)
      | _ \<Rightarrow> fallback)"

text \<open>
  What a handler returns in place of a value: an error, or the panic of a slice
  expression whose bounds are out of range.
\<close>

datatype handler_error = Failure string | SlicePanic

definition go_slice :: "'a list \<Rightarrow> int \<Rightarrow> int \<Rightarrow> 'a list option" where
  "go_slice xs lo hi =
     (if 0 \<le> lo \<and> lo \<le> hi \<and> hi \<le> int (length xs)
        then Some (take (nat (hi - lo)) (drop (nat lo) xs))
      else None)"

text \<open>The regular files of the workspace by path; \<open>os.ReadFile\<close> fails on any other path.\<close>

definition ReadFile :: "(string \<rightharpoonup> string) \<Rightarrow> string \<Rightarrow> string + string" where
  "ReadFile fs name =
     (case fs name of
        None \<Rightarrow> Inl (''open '' @ name @ '': no such file or directory'')
      | Some data \<Rightarrow> Inr data)"

record ReadFileResult =
  rf_path :: string
  rf_workspace :: string
  rf_start_line :: int
  rf_end_line :: int
  rf_total_lines :: int
  rf_truncated :: bool
  rf_content :: string

definition devReadFileHandler ::
  "(string \<rightharpoonup> string) \<Rightarrow> string \<Rightarrow> (string \<rightharpoonup> argval) \<Rightarrow> handler_error + ReadFileResult" where
  "devReadFileHandler fs workspace args =
     (let path = getStringArg args ''path'' [] in
      if path = [] then Inl (Failure ''path is required'')
      else
        (let startLine0 = getIntArg args ''start_line'' 1;
             startLine1 = (if startLine0 < 1 then 1 else startLine0);
             endLine0 = getIntArg args ''end_line'' 0
         in case resolveWorkspacePath workspace path of
              Inl err \<Rightarrow> Inl (Failure err)
            | Inr targetPath \<Rightarrow>
                (case ReadFile fs targetPath of
                   Inl err \<Rightarrow> Inl (Failure err)
                 | Inr data0 \<Rightarrow>
                     (let truncated = (length data0 > maxReadBytes);
                          data = (if length data0 > maxReadBytes
                                  then take maxReadBytes data0 else data0);
                          lines = Split data (CHR 0x0A);
                          totalLines = int (length lines);
                          endLine = (if endLine0 \<le> 0 \<or> endLine0 > totalLines
                                     then totalLines else endLine0);
                          startLine = (if startLine1 > endLine then endLine else startLine1)
                      in if totalLines > 0 then
                           (case go_slice lines (startLine - 1) endLine of
                              None \<Rightarrow> Inl SlicePanic
                            | Some selected \<Rightarrow>
                                Inr \<lparr>rf_path = path, rf_workspace = workspace,
                                     rf_start_line = startLine, rf_end_line = endLine,
                                     rf_total_lines = totalLines, rf_truncated = truncated,
                                     rf_content = Join selected [CHR 0x0A]\<rparr>)
                         else
                           Inr \<lparr>rf_path = path, rf_workspace = workspace,
                                rf_start_line = startLine, rf_end_line = endLine,
                                rf_total_lines = totalLines, rf_truncated = truncated,
                                rf_content = []\<rparr>))))"

text \<open>
  What \<open>cmd.CombinedOutput\<close> leaves behind for the handler: the combined output, the
  error, the exit code of \<open>cmd.ProcessState\<close> (\<open>None\<close> when the process state is nil),
  and whether the context ended by its deadline.  Running the shell is an operation of
  the outside world, given the directory, the command and the timeout in seconds.
\<close>

record ProcessOutcome =
  po_output :: string
  po_err :: "string option"
  po_exit :: "int option"
  po_deadline :: bool

record RunCommandResult =
  rc_command :: string
  rc_workspace :: string
  rc_exit_code :: int
  rc_output :: string
  rc_truncated :: bool
  rc_timed_out :: bool
  rc_error :: "string option"

definition devRunCommandHandler ::
  "('x \<Rightarrow> string \<Rightarrow> string \<Rightarrow> int \<Rightarrow> ProcessOutcome \<times> 'x) \<Rightarrow> string \<Rightarrow> (string \<rightharpoonup> argval) \<Rightarrow> 'x
     \<Rightarrow> (handler_error + RunCommandResult) \<times> 'x" where
  "devRunCommandHandler sh workspace args x =
     (let command = getStringArg args ''command'' [] in
      if TrimSpace command = [] then (Inl (Failure ''command is required''), x)
      else
        (let timeoutSeconds0 = getIntArg args ''timeout_seconds'' 20;
             timeoutSeconds1 = (if timeoutSeconds0 \<le> 0 then 20 else timeoutSeconds0);
             timeoutSeconds = (if timeoutSeconds1 > 300 then 300 else timeoutSeconds1);
             (outcome, x1) = sh x workspace command timeoutSeconds;
             truncated = (length (po_output outcome) > maxCommandOutput);
             outputStr = (if length (po_output outcome) > maxCommandOutput
                          then take maxCommandOutput (po_output outcome)
                          else po_output outcome);
             exitCode = (case po_exit outcome of Some code \<Rightarrow> code | None \<Rightarrow> 0)
         in (Inr \<lparr>rc_command = command, rc_workspace = workspace, rc_exit_code = exitCode,
                  rc_output = outputStr, rc_truncated = truncated,
                  rc_timed_out = po_deadline outcome, rc_error = po_err outcome\<rparr>, x1)))"

text \<open>The result map of \<open>devRunCommandHandler\<close> as a document, the keys sorted.\<close>

definition RunCommandResult_json :: "RunCommandResult \<Rightarrow> json" where
  "RunCommandResult_json res =
     JObject ([(''command'', JString (rc_command res))]
              @ (case rc_error res of None \<Rightarrow> [] | Some e \<Rightarrow> [(''error'', JString e)])
              @ [(''exit_code'', JNumber (rc_exit_code res)),
                 (''output'', JString (rc_output res)),
                 (''timed_out'', JBool (rc_timed_out res)),
                 (''truncated'', JBool (rc_truncated res)),
                 (''workspace'', JString (rc_workspace res))])"

text \<open>
  Modelled from the spec: \<open>ExecuteSkill\<close> and the registry's \<open>Execute\<close> are outside the
  files at hand.  By the spec, \<open>Execute\<close> runs the handler, and the content of the tool
  message is either the handler's returned value serialized as JSON or an error object;
  so a value returned by a handler is a successful execution with that value, and an
  error returned by a handler is the error of \<open>ExecuteSkill\<close>.
\<close>

definition execution_of_handler ::
  "string + json \<Rightarrow> ExecutionResult option \<times> string option" where
  "execution_of_handler outcome =
     (case outcome of
        Inl err \<Rightarrow> (None, Some err)
      | Inr v \<Rightarrow> (Some \<lparr>exec_Success = True, exec_Result = ResultValue v, exec_Error = []\<rparr>, None))"

section \<open>The xAI adapter: tool calls of a streamed turn\<close>

text \<open>
  \<open>SendMessageStream\<close> from the point where the response body is read.  A line of the
  body is a chunk of data, the line \<open>data: [DONE]\<close>, data that does not parse (skipped
  with a warning), or any other line (skipped).  The function returns the chunks handed
  to the callback, in order.
\<close>

record xAIToolCall =
  xtc_ID :: string
  xtc_Type :: string
  xtc_Name :: string
  xtc_Arguments :: string

record xAIChoice =
  ch_Content :: string
  ch_ToolCalls :: "xAIToolCall list"
  ch_FinishReason :: string

record TokenUsage =
  PromptTokens :: int
  CompletionTokens :: int
  TotalTokens :: int

record xAIStreamChunk =
  chunk_Choices :: "xAIChoice list"
  chunk_Usage :: "TokenUsage option"

datatype stream_line = OtherLine | DoneLine | BadData | Data xAIStreamChunk

record StreamChunk =
  sc_Content :: string
  sc_IsFirst :: bool
  sc_IsFinal :: bool
  sc_FinishReason :: string
  sc_ToolCalls :: "ToolCallResult list"
  sc_Usage :: "TokenUsage option"

record stream_state =
  ss_toolCalls :: "xAIToolCall list"
  ss_usage :: "TokenUsage option"
  ss_isFirst :: bool

text \<open>\<open>Update or append tool call\<close>: the inner loop over \<open>toolCalls\<close> and the append.\<close>

fun update_or_append :: "xAIToolCall list \<Rightarrow> xAIToolCall \<Rightarrow> xAIToolCall list" where
  "update_or_append [] tc = [tc]"
| "update_or_append (t # ts) tc =
     (if xtc_ID t = xtc_ID tc then tc # ts else t # update_or_append ts tc)"

definition accumulate :: "xAIToolCall list \<Rightarrow> xAIToolCall list \<Rightarrow> xAIToolCall list" where
  "accumulate toolCalls delta = foldl update_or_append toolCalls delta"

definition convert_xai_calls :: "xAIToolCall list \<Rightarrow> ToolCallResult list" where
  "convert_xai_calls toolCalls =
     map (\<lambda>tc. \<lparr>tc_ID = xtc_ID tc, tc_Name = xtc_Name tc, tc_Arguments = xtc_Arguments tc\<rparr>)
       toolCalls"

definition process_choice :: "stream_state \<Rightarrow> xAIChoice \<Rightarrow> StreamChunk list \<times> stream_state" where
  "process_choice st choice =
     (let content_chunks =
            (if ch_Content choice \<noteq> []
             then [\<lparr>sc_Content = ch_Content choice, sc_IsFirst = ss_isFirst st,
                    sc_IsFinal = False, sc_FinishReason = [], sc_ToolCalls = [],
                    sc_Usage = None\<rparr>]
             else []);
          st1 = (if ch_Content choice \<noteq> [] then st\<lparr>ss_isFirst := False\<rparr> else st);
          st2 = st1\<lparr>ss_toolCalls := accumulate (ss_toolCalls st1) (ch_ToolCalls choice)\<rparr>;
          final_chunks =
            (if ch_FinishReason choice \<noteq> []
             then [\<lparr>sc_Content = [], sc_IsFirst = False, sc_IsFinal = True,
                    sc_FinishReason = ch_FinishReason choice,
                    sc_ToolCalls = convert_xai_calls (ss_toolCalls st2),
                    sc_Usage = ss_usage st2\<rparr>]
             else [])
      in (content_chunks @ final_chunks, st2))"

fun process_choices :: "stream_state \<Rightarrow> xAIChoice list \<Rightarrow> StreamChunk list \<times> stream_state" where
  "process_choices st [] = ([], st)"
| "process_choices st (choice # rest) =
     (let (chunks, st1) = process_choice st choice;
          (more, st2) = process_choices st1 rest
      in (chunks @ more, st2))"

definition process_chunk :: "stream_state \<Rightarrow> xAIStreamChunk \<Rightarrow> StreamChunk list \<times> stream_state" where
  "process_chunk st chunk =
     (let (chunks, st1) = process_choices st (chunk_Choices chunk)
      in (chunks, case chunk_Usage chunk of
                    None \<Rightarrow> st1
                  | Some u \<Rightarrow> st1\<lparr>ss_usage := Some u\<rparr>))"

fun process_lines :: "stream_state \<Rightarrow> stream_line list \<Rightarrow> StreamChunk list" where
  "process_lines st [] = []"
| "process_lines st (OtherLine # rest) = process_lines st rest"
| "process_lines st (BadData # rest) = process_lines st rest"
| "process_lines st (DoneLine # rest) = []"
| "process_lines st (Data chunk # rest) =
     (let (chunks, st1) = process_chunk st chunk in chunks @ process_lines st1 rest)"

definition SendMessageStream :: "stream_line list \<Rightarrow> StreamChunk list" where
  "SendMessageStream body =
     process_lines \<lparr>ss_toolCalls = [], ss_usage = None, ss_isFirst = True\<rparr> body"

section \<open>Reading the outcome of a turn and of a run\<close>


definition result_state :: "run_result \<Rightarrow> RunState option" where
  "result_state res = (case res of Result state err \<Rightarrow> state | Crash \<Rightarrow> None)"

definition result_error :: "run_result \<Rightarrow> string option" where
  "result_error res = (case res of Result state err \<Rightarrow> err | Crash \<Rightarrow> None)"

definition result_messages :: "run_result \<Rightarrow> ChatMessage list" where
  "result_messages res = (case result_state res of Some state \<Rightarrow> Messages state | None \<Rightarrow> [])"

text \<open>What follows a pass through the body of the loop of \<open>runState\<close>.\<close>

definition after_turn :: "'x Runner \<Rightarrow> turn_outcome \<times> 'x world \<Rightarrow> run_result \<times> 'x world" where
  "after_turn r p =
     (case p of
        (Continue state1, w1) \<Rightarrow> runState_loop r state1 w1
      | (Return state1 err, w1) \<Rightarrow> (Result (Some state1) err, w1)
      | (Panicked, w1) \<Rightarrow> (Crash, w1))"

section \<open>Example runs\<close>

definition encode_ToolCallInfo :: "ToolCallInfo \<Rightarrow> json" where
  "encode_ToolCallInfo c =
     JObject [(''id'', JString (tci_ID c)), (''name'', JString (tci_Name c)),
              (''arguments'', JString (tci_Arguments c))]"

fun decode_ToolCallInfo :: "json \<Rightarrow> ToolCallInfo option" where
  "decode_ToolCallInfo (JObject kvs) =
     do {
       i \<leftarrow> dec_string (member kvs ''id'');
       n \<leftarrow> dec_string (member kvs ''name'');
       a \<leftarrow> dec_string (member kvs ''arguments'');
       Some \<lparr>tci_ID = i, tci_Name = n, tci_Arguments = a\<rparr>
     }"
| "decode_ToolCallInfo _ = None"

definition example_encode :: "ChatMessage \<Rightarrow> json" where
  "example_encode m =
     JObject [(''role'', JString (msg_Role m)), (''content'', JString (msg_Content m)),
              (''tool_calls'', JArray (map encode_ToolCallInfo (msg_ToolCalls m))),
              (''tool_call_id'', JString (msg_ToolCallID m)),
              (''name'', JString (msg_Name m)),
              (''timestamp'', JNumber (int (msg_Timestamp m)))]"

fun example_decode :: "json \<Rightarrow> ChatMessage option" where
  "example_decode (JObject kvs) =
     do {
       role \<leftarrow> dec_string (member kvs ''role'');
       content \<leftarrow> dec_string (member kvs ''content'');
       calls \<leftarrow> dec_list decode_ToolCallInfo (member kvs ''tool_calls'');
       call_id \<leftarrow> dec_string (member kvs ''tool_call_id'');
       name \<leftarrow> dec_string (member kvs ''name'');
       timestamp \<leftarrow> dec_time (member kvs ''timestamp'');
       Some \<lparr>msg_Role = role, msg_Content = content, msg_ToolCalls = calls,
             msg_ToolCallID = call_id, msg_Name = name, msg_Timestamp = timestamp\<rparr>
     }"
| "example_decode _ = None"

definition example_world :: "unit world" where
  "example_world = \<lparr>clock = 0, files = Map.empty, can_write = (\<lambda>p. True), requests = [],
     skill_calls = [], ext = ()\<rparr>"

definition example_options :: Options where
  "example_options = DefaultOptions\<lparr>Workspace := ''/ws''\<rparr>"

text \<open>
  A runner around a scripted provider: the reply depends on the number of messages of
  the request.  Every skill succeeds with the text \<open>ok\<close>.
\<close>

definition scripted_runner ::
  "(nat \<Rightarrow> string + ChatCompletionResult) \<Rightarrow> Options \<Rightarrow> unit Runner" where
  "scripted_runner script opts =
     \<lparr>SendMessageSync = (\<lambda>x messages. (script (length messages), x)),
       ExecuteSkill = (\<lambda>x name argsJSON.
         ((Some \<lparr>exec_Success = True, exec_Result = ResultString ''ok'', exec_Error = []\<rparr>,
           None), x)),
       EncodeMessage = example_encode,
       DecodeMessage = example_decode,
       FormatTime = (\<lambda>t. ''run-'' @ Itoa (int t)),
       store = \<lparr>runsDir = ''/home/u/.celeste/agent/runs''\<rparr>,
       options = opts\<rparr>"

definition call_c1 :: ToolCallResult where
  \<open>call_c1 = \<lparr>tc_ID = ''c1'', tc_Name = ''dev_read_file'',
     tc_Arguments = ''{"path":"a.txt"}''\<rparr>\<close>

definition call_c2 :: ToolCallResult where
  \<open>call_c2 = \<lparr>tc_ID = ''c2'', tc_Name = ''dev_read_file'',
     tc_Arguments = ''{"path":"b.txt"}''\<rparr>\<close>

text \<open>The provider asks for two tool calls at once, then completes; the limit is one call.\<close>

definition two_calls_script :: "nat \<Rightarrow> string + ChatCompletionResult" where
  "two_calls_script n =
     (if n = 1 then Inr \<lparr>res_Content = [], res_ToolCalls = [call_c1, call_c2]\<rparr>
      else Inr \<lparr>res_Content = ''TASK_COMPLETE: done'', res_ToolCalls = []\<rparr>)"

definition two_calls_runner :: "unit Runner" where
  "two_calls_runner =
     scripted_runner two_calls_script (example_options\<lparr>MaxToolCallsPerTurn := 1\<rparr>)"



text \<open>A tool call whose arguments are not JSON, for a tool whose name has a bell character.\<close>

definition call_bell :: ToolCallResult where
  \<open>call_bell = \<lparr>tc_ID = ''c1'', tc_Name = ''dev'' @ [CHR 0x07], tc_Arguments = ''{"path":}''\<rparr>\<close>

definition call_bad_args :: ToolCallResult where
  \<open>call_bad_args = \<lparr>tc_ID = ''c1'', tc_Name = ''dev_read_file'', tc_Arguments = ''{"path":}''\<rparr>\<close>

definition example_state :: RunState where
  "example_state = \<lparr>RunID = ''run-0'', Goal = ''read readme'', Status = StatusRunning,
     CreatedAt = 0, UpdatedAt = 0, CompletedAt = None, Turn = 1, ConsecutiveNoToolTurns = 0,
     ToolCallCount = 0,
     Messages = [\<lparr>msg_Role = ''user'', msg_Content = ''read readme'', msg_ToolCalls = [],
                  msg_ToolCallID = [], msg_Name = [], msg_Timestamp = 0\<rparr>],
     Steps = [], LastAssistantResponse = [], Error = [], Opts = example_options\<rparr>"

text \<open>The provider completes at once, with the default marker.\<close>

definition done_script :: "nat \<Rightarrow> string + ChatCompletionResult" where
  "done_script n = Inr \<lparr>res_Content = ''TASK_COMPLETE: finished'', res_ToolCalls = []\<rparr>"

definition done_runner :: "unit Runner" where
  "done_runner = scripted_runner done_script example_options"

text \<open>The world after a run that completed in its first turn and left its checkpoint.\<close>

definition completed_world :: "unit world" where
  "completed_world = snd (RunGoal done_runner ''say done'' example_world)"

text \<open>A shell whose command fails with exit status 1 after printing \<open>boom\<close>.\<close>

definition failing_shell :: "unit \<Rightarrow> string \<Rightarrow> string \<Rightarrow> int \<Rightarrow> ProcessOutcome \<times> unit" where
  "failing_shell x dir command timeoutSeconds =
     (\<lparr>po_output = ''boom'', po_err = Some ''exit status 1'', po_exit = Some 1,
       po_deadline = False\<rparr>, x)"

definition command_args :: "string \<rightharpoonup> argval" where
  "command_args = [''command'' \<mapsto> ArgString ''false'']"

text \<open>The workspace of the second scenario of the spec, and the arguments of its tool call.\<close>

definition readme_fs :: "string \<rightharpoonup> string" where
  "readme_fs = [''/ws/README.md'' \<mapsto> ''hello'' @ [CHR 0x0A] @ ''world'']"

definition readme_args :: "string \<rightharpoonup> argval" where
  "readme_args = [''path'' \<mapsto> ArgString ''README.md'']"

text \<open>
  The tool calls that the lines of a response body carry, in the order of arrival, up to
  the line \<open>data: [DONE]\<close>.
\<close>

fun stream_tool_calls :: "stream_line list \<Rightarrow> xAIToolCall list" where
  "stream_tool_calls [] = []"
| "stream_tool_calls (DoneLine # rest) = []"
| "stream_tool_calls (Data chunk # rest) =
     concat (map ch_ToolCalls (chunk_Choices chunk)) @ stream_tool_calls rest"
| "stream_tool_calls (OtherLine # rest) = stream_tool_calls rest"
| "stream_tool_calls (BadData # rest) = stream_tool_calls rest"

text \<open>
  A streamed turn in which the tool call \<open>c1\<close> arrives twice before the finish reason,
  and a scripted provider that returns two tool calls with the id \<open>c1\<close> in one result.
\<close>

definition xai_c1_first :: xAIToolCall where
  \<open>xai_c1_first = \<lparr>xtc_ID = ''c1'', xtc_Type = ''function'', xtc_Name = ''dev_read_file'',
     xtc_Arguments = ''{"path":"a.txt"}''\<rparr>\<close>

definition xai_c1_second :: xAIToolCall where
  \<open>xai_c1_second = \<lparr>xtc_ID = ''c1'', xtc_Type = ''function'', xtc_Name = ''dev_read_file'',
     xtc_Arguments = ''{"path":"b.txt"}''\<rparr>\<close>

definition duplicate_choice :: xAIChoice where
  "duplicate_choice = \<lparr>ch_Content = [], ch_ToolCalls = [xai_c1_first, xai_c1_second],
     ch_FinishReason = ''tool_calls''\<rparr>"

definition duplicate_script :: "nat \<Rightarrow> string + ChatCompletionResult" where
  "duplicate_script n =
     (if n = 1
      then Inr \<lparr>res_Content = [],
                res_ToolCalls = convert_xai_calls [xai_c1_first, xai_c1_second]\<rparr>
      else Inr \<lparr>res_Content = ''TASK_COMPLETE: done'', res_ToolCalls = []\<rparr>)"

definition duplicate_runner :: "unit Runner" where
  "duplicate_runner = scripted_runner duplicate_script example_options"

text \<open>A run state without a run id.\<close>

definition anonymous_state :: RunState where
  "anonymous_state = example_state\<lparr>RunID := []\<rparr>"



section \<open>Facts about the string functions\<close>

lemma HasPrefix_iff: "HasPrefix s p \<longleftrightarrow> (\<exists>q. s = p @ q)"
  by (induction s p rule: HasPrefix.induct) auto

lemma Contains_iff: "Contains s substr \<longleftrightarrow> (\<exists>p q. s = p @ substr @ q)"
proof (induction s)
  case Nil
  then show ?case by auto
next
  case (Cons c cs)
  show ?case
  proof
    assume "Contains (c # cs) substr"
    then consider "HasPrefix (c # cs) substr" | "Contains cs substr" by auto
    then show "\<exists>p q. c # cs = p @ substr @ q"
    proof cases
      case 1
      then obtain q where "c # cs = substr @ q" by (auto simp: HasPrefix_iff)
      then have "c # cs = [] @ substr @ q" by simp
      then show ?thesis by blast
    next
      case 2
      then obtain p q where "cs = p @ substr @ q" using Cons.IH by blast
      then have "c # cs = (c # p) @ substr @ q" by simp
      then show ?thesis by blast
    qed
  next
    assume "\<exists>p q. c # cs = p @ substr @ q"
    then obtain p q where e: "c # cs = p @ substr @ q" by blast
    show "Contains (c # cs) substr"
    proof (cases p)
      case Nil
      with e have "HasPrefix (c # cs) substr" by (auto simp: HasPrefix_iff)
      then show ?thesis by simp
    next
      case (Cons a p')
      with e have "cs = p' @ substr @ q" by simp
      then have "Contains cs substr" using Cons.IH by blast
      then show ?thesis by simp
    qed
  qed
qed

lemma Contains_empty: "Contains s []"
  by (cases s) auto

section \<open>Facts about the eval harness\<close>








section \<open>Facts about the runner\<close>






section \<open>Completion of a turn without tool calls\<close>



lemma Save_fields:
  "Turn (fst (snd (Save enc s st w))) = Turn st"
  "Opts (fst (snd (Save enc s st w))) = Opts st"
  "Status (fst (snd (Save enc s st w))) = Status st"
  "Messages (fst (snd (Save enc s st w))) = Messages st"
  "requests (snd (snd (Save enc s st w))) = requests w"
  "skill_calls (snd (snd (Save enc s st w))) = skill_calls w"
  "ext (snd (snd (Save enc s st w))) = ext w"
  by (simp_all add: Save_def time_Now_def Let_def)

lemma save_checkpoint_fields:
  "Turn (fst (save_checkpoint r st w)) = Turn st"
  "Opts (fst (save_checkpoint r st w)) = Opts st"
  "Status (fst (save_checkpoint r st w)) = Status st"
  "Messages (fst (save_checkpoint r st w)) = Messages st"
  "requests (snd (save_checkpoint r st w)) = requests w"
  "skill_calls (snd (save_checkpoint r st w)) = skill_calls w"
  "ext (snd (save_checkpoint r st w)) = ext w"
  by (simp_all add: save_checkpoint_def Save_fields split: prod.splits)
     (metis Save_fields fst_conv snd_conv)+


lemma executeToolCall_fields:
  "Turn (fst (snd (executeToolCall r st tc w))) = Turn st"
  "Opts (fst (snd (executeToolCall r st tc w))) = Opts st"
  "Status (fst (snd (executeToolCall r st tc w))) = Status st"
  "Messages (fst (snd (executeToolCall r st tc w))) = Messages st"
  "requests (snd (snd (executeToolCall r st tc w))) = requests w"
  by (simp_all add: executeToolCall_def client_ExecuteSkill_def time_Now_def Let_def
        split: prod.splits)

lemma dispatch_fields:
  "Turn (fst (dispatch r st tcs w)) = Turn st
   \<and> Opts (fst (dispatch r st tcs w)) = Opts st
   \<and> Status (fst (dispatch r st tcs w)) = Status st
   \<and> requests (snd (dispatch r st tcs w)) = requests w"
proof (induction tcs arbitrary: st w)
  case Nil
  show ?case by simp
next
  case (Cons tc tcs)
  obtain m st1 w1 where e: "executeToolCall r st tc w = (m, st1, w1)"
    by (cases "executeToolCall r st tc w") auto
  from e executeToolCall_fields [of r st tc w]
  have "Turn st1 = Turn st" "Opts st1 = Opts st" "Status st1 = Status st"
    "requests w1 = requests w" by simp_all
  with e Cons.IH [of "st1\<lparr>Messages := Messages st1 @ [m],
      ToolCallCount := ToolCallCount st1 + 1\<rparr>" w1]
  show ?case by (simp add: Let_def)
qed

lemma no_tool_turn_requests: "requests (snd (no_tool_turn r st w)) = requests w"
  by (simp add: no_tool_turn_def Let_def completeState_def time_Now_def
        save_checkpoint_fields split: prod.splits)
     (metis save_checkpoint_fields(5) snd_conv world.select_convs(4) world.surjective
        world.update_convs(1))


lemma no_tool_turn_Turn:
  "(case fst (no_tool_turn r st w) of
      Continue st' \<Rightarrow> Turn st' = Turn st \<and> Opts st' = Opts st
    | Return st' e \<Rightarrow> Turn st' = Turn st
    | Panicked \<Rightarrow> True)"
  by (simp add: no_tool_turn_def Let_def completeState_def time_Now_def split_beta
        save_checkpoint_fields)

lemma tool_turn_requests: "requests (snd (tool_turn r st tcs w)) = requests w"
  by (simp add: tool_turn_def Let_def split_beta save_checkpoint_fields dispatch_fields
        split: option.splits)

lemma tool_turn_Turn:
  "(case fst (tool_turn r st tcs w) of
      Continue st' \<Rightarrow> Turn st' = Turn st \<and> Opts st' = Opts st
    | Return st' e \<Rightarrow> Turn st' = Turn st
    | Panicked \<Rightarrow> True)"
  by (simp add: tool_turn_def Let_def split_beta save_checkpoint_fields dispatch_fields
        split: option.splits)

lemma run_turn_requests: "requests (snd (run_turn r st w)) = requests w @ [Messages st]"
  by (simp add: run_turn_def client_SendMessageSync_def Let_def split_beta time_Now_def
        Save_fields no_tool_turn_requests tool_turn_requests split: sum.splits)

lemma run_turn_Turn:
  "(case fst (run_turn r st w) of
      Continue st' \<Rightarrow> Turn st' = Turn st \<and> Opts st' = Opts st
    | Return st' e \<Rightarrow> Turn st' = Turn st
    | Panicked \<Rightarrow> True)"
proof -
  have a: "(case fst (no_tool_turn r s v) of
      Continue st' \<Rightarrow> Turn st' = Turn st \<and> Opts st' = Opts st
    | Return st' e \<Rightarrow> Turn st' = Turn st
    | Panicked \<Rightarrow> True)" if "Turn s = Turn st" "Opts s = Opts st" for s and v :: "'a world"
    using no_tool_turn_Turn [where r = r and st = s and w = v] that
      by (auto split: turn_outcome.splits)
  have b: "(case fst (tool_turn r s tcs v) of
      Continue st' \<Rightarrow> Turn st' = Turn st \<and> Opts st' = Opts st
    | Return st' e \<Rightarrow> Turn st' = Turn st
    | Panicked \<Rightarrow> True)" if "Turn s = Turn st" "Opts s = Opts st" for s tcs and v :: "'a world"
    using tool_turn_Turn [where r = r and st = s and tcs = tcs and w = v] that
      by (auto split: turn_outcome.splits)
  show ?thesis
    by (simp add: run_turn_def client_SendMessageSync_def Let_def split_beta time_Now_def
          Save_fields a b split: sum.splits)
qed

lemma loop_requests_grow:
  "\<exists>more. requests (snd (runState_loop r st w)) = requests w @ more"
proof (induction r st w rule: runState_loop.induct)
  case (1 r state w)
  show ?case
  proof (cases "Turn state < MaxTurns (Opts state)")
    case False
    then show ?thesis
      by (simp add: runState_loop.simps [of r state w] Let_def split_beta time_Now_def
            save_checkpoint_fields)
  next
    case True
    let ?s = "state\<lparr>Turn := Turn state + 1, Status := StatusRunning\<rparr>"
    obtain out w1 where rt: "run_turn r ?s w = (out, w1)" by (cases "run_turn r ?s w") auto
    with run_turn_requests [of r ?s w] have rq: "requests w1 = requests w @ [Messages state]"
      by simp
    show ?thesis
    proof (cases out)
      case (Continue s1)
      from "1.IH" [OF True rt [symmetric] Continue]
      obtain more where "requests (snd (runState_loop r s1 w1)) = requests w1 @ more" by blast
      with rq True rt Continue show ?thesis
        by (simp add: runState_loop.simps [of r state w])
    next
      case (Return s1 e)
      with rq True rt show ?thesis by (simp add: runState_loop.simps [of r state w])
    next
      case Panicked
      with rq True rt show ?thesis by (simp add: runState_loop.simps [of r state w])
    qed
  qed
qed

lemma loop_Turn_mono:
  "result_state (fst (runState_loop r st w)) = Some st' \<Longrightarrow> Turn st \<le> Turn st'"
proof (induction r st w rule: runState_loop.induct)
  case (1 r state w)
  show ?case
  proof (cases "Turn state < MaxTurns (Opts state)")
    case False
    with "1.prems" show ?thesis
      by (simp add: runState_loop.simps [of r state w] Let_def split_beta time_Now_def
            result_state_def)
         (metis save_checkpoint_fields(1) RunState.select_convs(7) RunState.surjective
            RunState.update_convs(3) RunState.update_convs(6) order_refl)
  next
    case True
    let ?s = "state\<lparr>Turn := Turn state + 1, Status := StatusRunning\<rparr>"
    obtain out w1 where rt: "run_turn r ?s w = (out, w1)" by (cases "run_turn r ?s w") auto
    show ?thesis
    proof (cases out)
      case (Continue s1)
      with rt run_turn_Turn [where r = r and st = "?s" and w = w] have t: "Turn s1 = Turn state + 1" by simp
      from "1.prems" True rt Continue
      have "result_state (fst (runState_loop r s1 w1)) = Some st'"
        by (simp add: runState_loop.simps [of r state w])
      from "1.IH" [OF True rt [symmetric] Continue this] t show ?thesis by simp
    next
      case (Return s1 e)
      with rt run_turn_Turn [where r = r and st = "?s" and w = w] have t: "Turn s1 = Turn state + 1" by simp
      from "1.prems" True rt Return have "st' = s1"
        by (simp add: runState_loop.simps [of r state w] result_state_def)
      with t show ?thesis by simp
    next
      case Panicked
      with "1.prems" True rt show ?thesis
        by (simp add: runState_loop.simps [of r state w] result_state_def)
    qed
  qed
qed


lemma resume_options_fields:
  "Turn (resume_options r st) = Turn st"
  "MaxTurns (Opts (resume_options r st)) = MaxTurns (Opts st)"
  "Messages (resume_options r st) = Messages st"
  "resume_options r (st\<lparr>Status := s\<rparr>) = (resume_options r st)\<lparr>Status := s\<rparr>"
  by (simp_all add: resume_options_def Let_def)

lemma loop_ignores_Status:
  "Turn st < MaxTurns (Opts st) \<Longrightarrow>
     runState_loop r (st\<lparr>Status := s\<rparr>) w = runState_loop r st w"
  by (simp add: runState_loop.simps [of r "st\<lparr>Status := s\<rparr>" w]
        runState_loop.simps [of r st w])

section \<open>Resume\<close>

text \<open>
  Claim C9.  \<open>Resume\<close> of a checkpoint whose turn is below \<open>max_turns\<close> does not look at
  the stored status: the loop sets the status to \<open>running\<close>, counts the turn and runs
  it, whatever the status was.  A new request goes to the provider with the loaded
  messages, and a state that \<open>Resume\<close> returns has a turn above the loaded one.
\<close>

theorem Resume_restarts_terminal_state:
  assumes load: "Load (DecodeMessage r) (store r) runID w = Inr loaded"
    and lt: "Turn loaded < MaxTurns (Opts loaded)"
  shows "Resume r runID w =
           after_turn r
             (run_turn r
                ((fst (save_checkpoint r (resume_options r loaded) w))
                   \<lparr>Turn := Turn loaded + 1, Status := StatusRunning\<rparr>)
                (snd (save_checkpoint r (resume_options r loaded) w)))
         \<and> (\<forall>status v. runState_loop r (resume_options r (loaded\<lparr>Status := status\<rparr>)) v
               = runState_loop r (resume_options r loaded) v)
         \<and> length (requests w) < length (requests (snd (Resume r runID w)))
         \<and> requests (snd (Resume r runID w)) ! length (requests w) = Messages loaded
         \<and> (\<forall>st. result_state (fst (Resume r runID w)) = Some st \<longrightarrow> Turn loaded < Turn st)"
proof -
  let ?s0 = "fst (save_checkpoint r (resume_options r loaded) w)"
  let ?w0 = "snd (save_checkpoint r (resume_options r loaded) w)"
  let ?s1 = "?s0\<lparr>Turn := Turn loaded + 1, Status := StatusRunning\<rparr>"
  have t0: "Turn ?s0 = Turn loaded" and m0: "MaxTurns (Opts ?s0) = MaxTurns (Opts loaded)"
    and msg0: "Messages ?s0 = Messages loaded" and rq0: "requests ?w0 = requests w"
    by (simp_all add: save_checkpoint_fields resume_options_fields)
  have res: "Resume r runID w = runState_loop r ?s0 ?w0"
    using load by (simp add: Resume_def runState_def split_beta)
  have step: "runState_loop r ?s0 ?w0 = after_turn r (run_turn r ?s1 ?w0)"
    using lt t0 m0
    by (simp add: runState_loop.simps [of r ?s0 ?w0] after_turn_def split: prod.splits)
  have eq: "Resume r runID w = after_turn r (run_turn r ?s1 ?w0)"
    using res step by simp
  have ign: "\<forall>status v. runState_loop r (resume_options r (loaded\<lparr>Status := status\<rparr>)) v
      = runState_loop r (resume_options r loaded) v"
    using lt by (simp add: resume_options_fields loop_ignores_Status)
  obtain out w1 where rt: "run_turn r ?s1 ?w0 = (out, w1)"
    by (cases "run_turn r ?s1 ?w0") auto
  from rt run_turn_requests [of r ?s1 ?w0] rq0 msg0
  have rq1: "requests w1 = requests w @ [Messages loaded]" by simp
  have "\<exists>more. requests (snd (after_turn r (out, w1))) = requests w1 @ more"
  proof (cases out)
    case (Continue s2)
    with loop_requests_grow [of r s2 w1] show ?thesis by (simp add: after_turn_def)
  qed (simp_all add: after_turn_def)
  then obtain more where
    rq: "requests (snd (Resume r runID w)) = requests w @ [Messages loaded] @ more"
    using eq rt rq1 by auto
  have len: "length (requests w) < length (requests (snd (Resume r runID w)))"
    and nth: "requests (snd (Resume r runID w)) ! length (requests w) = Messages loaded"
    using rq by (simp_all add: nth_append)
  have turn: "\<forall>st. result_state (fst (Resume r runID w)) = Some st \<longrightarrow> Turn loaded < Turn st"
  proof (intro allI impI)
    fix st
    assume a: "result_state (fst (Resume r runID w)) = Some st"
    show "Turn loaded < Turn st"
    proof (cases out)
      case (Continue s2)
      with rt run_turn_Turn [where r = r and st = "?s1" and w = "?w0"]
      have "Turn s2 = Turn loaded + 1" by simp
      moreover from a eq rt Continue
      have "result_state (fst (runState_loop r s2 w1)) = Some st"
        by (simp add: after_turn_def)
      then have "Turn s2 \<le> Turn st" by (rule loop_Turn_mono)
      ultimately show ?thesis by simp
    next
      case (Return s2 e)
      with rt run_turn_Turn [where r = r and st = "?s1" and w = "?w0"]
      have "Turn s2 = Turn loaded + 1" by simp
      moreover from a eq rt Return have "st = s2"
        by (simp add: after_turn_def result_state_def)
      ultimately show ?thesis by simp
    next
      case Panicked
      with a eq rt show ?thesis by (simp add: after_turn_def result_state_def)
    qed
  qed
  from eq ign len nth turn show ?thesis by blast
qed

text \<open>A run that completed in its first turn is resumed from its checkpoint.\<close>

theorem Resume_restarts_terminal_state_witness:
  "Status (projr (Load (DecodeMessage done_runner) (store done_runner) ''run-0'' completed_world))
     = StatusCompleted
   \<and> length (requests completed_world)
       < length (requests (snd (Resume done_runner ''run-0'' completed_world)))"
proof -
  let ?load = "Load (DecodeMessage done_runner) (store done_runner) ''run-0'' completed_world"
  have "\<not> isl ?load" by code_simp
  then have load: "?load = Inr (projr ?load)" by simp
  have lt: "Turn (projr ?load) < MaxTurns (Opts (projr ?load))" by code_simp
  have st: "Status (projr ?load) = StatusCompleted" by code_simp
  from Resume_restarts_terminal_state [OF load lt] st show ?thesis by blast
qed



section \<open>Tool calls beyond the limit of a turn\<close>

text \<open>
  Claim C1, on a run whose provider returns two tool calls in a turn limited to one.
  The assistant message carries both calls, one tool message follows it, and the next
  request goes to the provider with the second call unanswered: the messages are not
  paired.
\<close>

theorem capped_turn_leaves_call_unanswered:
  "MaxToolCallsPerTurn (options two_calls_runner) = 1
   \<and> map msg_Role (result_messages (fst (RunGoal two_calls_runner ''read two files'' example_world)))
       = [''user'', ''assistant'', ''tool'', ''assistant'']
   \<and> map tci_ID (msg_ToolCalls
         (result_messages (fst (RunGoal two_calls_runner ''read two files'' example_world)) ! 1))
       = [''c1'', ''c2'']
   \<and> map msg_ToolCallID
         (result_messages (fst (RunGoal two_calls_runner ''read two files'' example_world)))
       = [[], [], ''c1'', []]
   \<and> \<not> paired (result_messages (fst (RunGoal two_calls_runner ''read two files'' example_world)))
   \<and> length (requests (snd (RunGoal two_calls_runner ''read two files'' example_world))) = 2
   \<and> \<not> paired (requests (snd (RunGoal two_calls_runner ''read two files'' example_world)) ! 1)"
  by code_simp

section \<open>Tool calls with invalid arguments\<close>

text \<open>
  Claim C4, on a tool call with invalid arguments whose tool name holds a bell
  character.  The content of the tool message quotes the name with \<open>%q\<close>, whose escape
  \<open>\a\<close> is not JSON, so the content is not a JSON document; the payload that
  \<open>formatToolResult\<close> builds with \<open>json.Marshal\<close> for the same name is one.
\<close>

theorem invalid_arguments_payload_not_json:
  \<open>\<not> Valid (tc_Arguments call_bell)
   \<and> msg_Content (fst (executeToolCall two_calls_runner example_state call_bell example_world))
       = ''{"error": true, "message": "invalid tool arguments JSON", "tool": "dev''
           @ [CHR 0x5C] @ ''a"}''
   \<and> \<not> Valid (msg_Content
         (fst (executeToolCall two_calls_runner example_state call_bell example_world)))
   \<and> Valid (error_payload (tc_Name call_bell) ''invalid tool arguments JSON'')\<close>
  by code_simp

section \<open>Facts about the workspace tools\<close>

lemma Split_not_Nil: "Split s c \<noteq> []"
  by (induction s) (auto split: list.splits)

lemma Join_Cons: "es \<noteq> [] \<Longrightarrow> Join (e # es) sep = e @ sep @ Join es sep"
  by (cases es) auto

lemma Join_Split: "Join (Split s c) [c] = s"
proof (induction s)
  case Nil
  show ?case by simp
next
  case (Cons x xs)
  show ?case
  proof (cases "x = c")
    case True
    with Cons show ?thesis by (simp add: Join_Cons Split_not_Nil)
  next
    case False
    obtain l ls where sp: "Split xs c = l # ls"
      using Split_not_Nil [of xs c] by (cases "Split xs c") auto
    with Cons have "Join (l # ls) [c] = xs" by simp
    with False sp show ?thesis by (cases ls) auto
  qed
qed

text \<open>
  Claim C10.  For a command that is not blank, \<open>devRunCommandHandler\<close> returns a result
  and no error, whatever the shell did: the exit code (0 when there is no process
  state), whether the deadline of the inner timeout passed, the error text if any, and
  the output cut to 12,000 bytes with \<open>truncated\<close> set when it was longer.  The timeout
  handed to the shell lies between 1 and 300 seconds, 20 by default.  The returned value,
  as a successful execution, is what \<open>formatToolResult\<close> marshals into the tool message.
\<close>

theorem devRunCommandHandler_reports_in_result:
  assumes "TrimSpace (getStringArg args ''command'' []) \<noteq> []"
  shows "\<exists>res timeoutSeconds.
     1 \<le> timeoutSeconds \<and> timeoutSeconds \<le> 300
     \<and> (getIntArg args ''timeout_seconds'' 20 \<in> {1..300}
          \<longrightarrow> timeoutSeconds = getIntArg args ''timeout_seconds'' 20)
     \<and> (getIntArg args ''timeout_seconds'' 20 \<le> 0 \<longrightarrow> timeoutSeconds = 20)
     \<and> devRunCommandHandler sh workspace args x
         = (Inr res, snd (sh x workspace (getStringArg args ''command'' []) timeoutSeconds))
     \<and> rc_exit_code res
         = (case po_exit (fst (sh x workspace (getStringArg args ''command'' []) timeoutSeconds))
            of Some code \<Rightarrow> code | None \<Rightarrow> 0)
     \<and> rc_timed_out res
         = po_deadline (fst (sh x workspace (getStringArg args ''command'' []) timeoutSeconds))
     \<and> rc_error res
         = po_err (fst (sh x workspace (getStringArg args ''command'' []) timeoutSeconds))
     \<and> rc_output res
         = take maxCommandOutput
             (po_output (fst (sh x workspace (getStringArg args ''command'' []) timeoutSeconds)))
     \<and> rc_truncated res
         = (maxCommandOutput
              < length (po_output
                  (fst (sh x workspace (getStringArg args ''command'' []) timeoutSeconds))))
     \<and> formatToolResult ''dev_run_command''
           (fst (execution_of_handler (Inr (RunCommandResult_json res))))
           (snd (execution_of_handler (Inr (RunCommandResult_json res))))
         = Marshal (RunCommandResult_json res)"
proof -
  define t0 where "t0 = getIntArg args ''timeout_seconds'' 20"
  define t where "t = (if (if t0 \<le> 0 then 20 else t0) > 300 then 300
                       else (if t0 \<le> 0 then 20 else t0))"
  define command where "command = getStringArg args ''command'' []"
  define outcome where "outcome = fst (sh x workspace command t)"
  define res where "res = \<lparr>rc_command = command, rc_workspace = workspace,
      rc_exit_code = (case po_exit outcome of Some code \<Rightarrow> code | None \<Rightarrow> 0),
      rc_output = (if length (po_output outcome) > maxCommandOutput
                   then take maxCommandOutput (po_output outcome) else po_output outcome),
      rc_truncated = (length (po_output outcome) > maxCommandOutput),
      rc_timed_out = po_deadline outcome, rc_error = po_err outcome\<rparr>"
  have run: "devRunCommandHandler sh workspace args x = (Inr res, snd (sh x workspace command t))"
    using assms
    by (simp add: devRunCommandHandler_def Let_def split_beta res_def outcome_def t_def
          t0_def command_def)
  have bounds: "1 \<le> t" "t \<le> 300" by (simp_all add: t_def)
  have keep: "t0 \<in> {1..300} \<longrightarrow> t = t0" and dflt: "t0 \<le> 0 \<longrightarrow> t = 20"
    by (auto simp: t_def)
  have out: "rc_output res = take maxCommandOutput (po_output outcome)"
    by (simp add: res_def)
  have fmt: "formatToolResult ''dev_run_command''
           (fst (execution_of_handler (Inr (RunCommandResult_json res))))
           (snd (execution_of_handler (Inr (RunCommandResult_json res))))
         = Marshal (RunCommandResult_json res)"
    by (simp add: formatToolResult_def execution_of_handler_def)
  have fields: "rc_exit_code res = (case po_exit outcome of Some code \<Rightarrow> code | None \<Rightarrow> 0)"
    "rc_timed_out res = po_deadline outcome" "rc_error res = po_err outcome"
    "rc_truncated res = (maxCommandOutput < length (po_output outcome))"
    by (simp_all add: res_def)
  show ?thesis
    apply (rule exI [of _ res])
    apply (rule exI [of _ t])
    using run bounds keep dflt out fmt fields
    unfolding outcome_def command_def t0_def
    apply (intro conjI)
    apply assumption+
    done
qed

text \<open>A command that exits with status 1.\<close>

theorem devRunCommandHandler_reports_in_result_witness:
  "fst (devRunCommandHandler failing_shell ''/ws'' command_args ())
     = Inr \<lparr>rc_command = ''false'', rc_workspace = ''/ws'', rc_exit_code = 1,
            rc_output = ''boom'', rc_truncated = False, rc_timed_out = False,
            rc_error = Some ''exit status 1''\<rparr>"
proof -
  have ne: "TrimSpace (getStringArg command_args ''command'' []) \<noteq> []" by code_simp
  have e: "devRunCommandHandler failing_shell ''/ws'' command_args ()
      = (Inr \<lparr>rc_command = ''false'', rc_workspace = ''/ws'', rc_exit_code = 1,
            rc_output = ''boom'', rc_truncated = False, rc_timed_out = False,
            rc_error = Some ''exit status 1''\<rparr>, ())"
    by code_simp
  from devRunCommandHandler_reports_in_result [OF ne, of failing_shell "''/ws''" "()"] e
  show ?thesis by simp
qed

lemma getIntArg_default: "args key = None \<Longrightarrow> getIntArg args key fallback = fallback"
  by (simp add: getIntArg_def)

text \<open>
  Claim C7.  When the path resolves inside the workspace and names a file, \<open>dev_read_file\<close>
  keeps the first 200,000 bytes of the file and sets \<open>truncated\<close> exactly when the
  file is longer, splits the kept bytes at the newlines, and returns their count as
  \<open>total_lines\<close>.  The end line is the last line when it is absent, not positive or
  beyond the last line; the start line is 1 when it is absent or below 1, and the end
  line when it lies beyond the end line.  So \<open>1 \<le> start \<le> end \<le> total_lines\<close>, the
  slice never panics, and the content is the lines from start to end inclusive, joined
  by newlines; with both lines absent it is all the kept bytes.
\<close>

theorem devReadFileHandler_selects_lines:
  assumes "getStringArg args ''path'' [] \<noteq> []"
    and "resolveWorkspacePath workspace (getStringArg args ''path'' []) = Inr target"
    and "fs target = Some data"
  shows "\<exists>res.
     devReadFileHandler fs workspace args = Inr res
     \<and> rf_truncated res = (maxReadBytes < length data)
     \<and> rf_total_lines res = int (length (Split (take maxReadBytes data) (CHR 0x0A)))
     \<and> rf_end_line res
         = (if getIntArg args ''end_line'' 0 \<le> 0
               \<or> rf_total_lines res < getIntArg args ''end_line'' 0
            then rf_total_lines res else getIntArg args ''end_line'' 0)
     \<and> rf_start_line res = min (max (getIntArg args ''start_line'' 1) 1) (rf_end_line res)
     \<and> 1 \<le> rf_start_line res \<and> rf_start_line res \<le> rf_end_line res
     \<and> rf_end_line res \<le> rf_total_lines res
     \<and> rf_content res
         = Join (take (nat (rf_end_line res - rf_start_line res + 1))
                   (drop (nat (rf_start_line res - 1))
                      (Split (take maxReadBytes data) (CHR 0x0A))))
             [CHR 0x0A]
     \<and> (args ''start_line'' = None \<and> args ''end_line'' = None
          \<longrightarrow> rf_start_line res = 1 \<and> rf_end_line res = rf_total_lines res
              \<and> rf_content res = take maxReadBytes data)"
proof -
  define path where "path = getStringArg args ''path'' []"
  define lines where "lines = Split (take maxReadBytes data) (CHR 0x0A)"
  define total where "total = int (length lines)"
  define e0 where "e0 = getIntArg args ''end_line'' 0"
  define s0 where "s0 = getIntArg args ''start_line'' 1"
  define e where "e = (if e0 \<le> 0 \<or> total < e0 then total else e0)"
  define s where "s = min (max s0 1) e"
  define res where "res = \<lparr>rf_path = path, rf_workspace = workspace, rf_start_line = s,
      rf_end_line = e, rf_total_lines = total, rf_truncated = (maxReadBytes < length data),
      rf_content = Join (take (nat (e - s + 1)) (drop (nat (s - 1)) lines)) [CHR 0x0A]\<rparr>"
  have total_pos: "1 \<le> total"
    using Split_not_Nil [of "take maxReadBytes data" "CHR 0x0A"]
    by (cases lines) (auto simp: total_def lines_def)
  have e_range: "1 \<le> e" "e \<le> total" using total_pos by (auto simp: e_def)
  have s_range: "1 \<le> s" "s \<le> e" using e_range by (auto simp: s_def)
  have kept: "(if maxReadBytes < length d then take maxReadBytes d else d)
      = take maxReadBytes d" for d :: string by simp
  have ar: "a - (b - 1) = a - b + 1" for a b :: int by simp
  have ne: "Suc 0 \<le> length (Split (take maxReadBytes data) (CHR 0x0A))"
    using Split_not_Nil [of "take maxReadBytes data" "CHR 0x0A"]
    by (cases "Split (take maxReadBytes data) (CHR 0x0A)") auto
  have run: "devReadFileHandler fs workspace args = Inr res"
    unfolding res_def s_def e_def total_def lines_def e0_def s0_def path_def
    using assms ne
    by (auto simp: devReadFileHandler_def Let_def ReadFile_def kept go_slice_def ar
          min_def max_def)
  have dflt: "args ''start_line'' = None \<and> args ''end_line'' = None
      \<longrightarrow> s = 1 \<and> e = total \<and> rf_content res = take maxReadBytes data"
  proof
    assume a: "args ''start_line'' = None \<and> args ''end_line'' = None"
    then have "s0 = 1" "e0 = 0" by (simp_all add: s0_def e0_def getIntArg_default)
    then have se: "e = total" "s = 1" using total_pos by (simp_all add: e_def s_def)
    then have "take (nat (e - s + 1)) (drop (nat (s - 1)) lines) = lines"
      by (simp add: total_def)
    then have "rf_content res = Join lines [CHR 0x0A]" by (simp add: res_def)
    with se show "s = 1 \<and> e = total \<and> rf_content res = take maxReadBytes data"
      by (simp add: lines_def Join_Split)
  qed
  have f1: "rf_truncated res = (maxReadBytes < length data)"
    and f2: "rf_total_lines res = int (length (Split (take maxReadBytes data) (CHR 0x0A)))"
    and f3: "rf_end_line res = e" and f4: "rf_start_line res = s"
    and f5: "rf_total_lines res = total"
    and f6: "rf_content res = Join (take (nat (e - s + 1)) (drop (nat (s - 1)) lines)) [CHR 0x0A]"
    by (simp_all add: res_def total_def lines_def)
  show ?thesis
  proof (intro exI conjI)
    show "devReadFileHandler fs workspace args = Inr res" by (fact run)
    show "rf_truncated res = (maxReadBytes < length data)" by (fact f1)
    show "rf_total_lines res = int (length (Split (take maxReadBytes data) (CHR 0x0A)))"
      by (fact f2)
    show "rf_end_line res
         = (if getIntArg args ''end_line'' 0 \<le> 0
               \<or> rf_total_lines res < getIntArg args ''end_line'' 0
            then rf_total_lines res else getIntArg args ''end_line'' 0)"
      unfolding f3 f5 by (simp add: e_def e0_def)
    show "rf_start_line res = min (max (getIntArg args ''start_line'' 1) 1) (rf_end_line res)"
      unfolding f3 f4 by (simp add: s_def s0_def)
    show "1 \<le> rf_start_line res" unfolding f4 by (fact s_range)
    show "rf_start_line res \<le> rf_end_line res" unfolding f3 f4 by (fact s_range)
    show "rf_end_line res \<le> rf_total_lines res" unfolding f3 f5 by (fact e_range)
    show "rf_content res
         = Join (take (nat (rf_end_line res - rf_start_line res + 1))
                   (drop (nat (rf_start_line res - 1))
                      (Split (take maxReadBytes data) (CHR 0x0A))))
             [CHR 0x0A]"
      unfolding f3 f4 f6 by (simp add: lines_def)
    show "args ''start_line'' = None \<and> args ''end_line'' = None
          \<longrightarrow> rf_start_line res = 1 \<and> rf_end_line res = rf_total_lines res
              \<and> rf_content res = take maxReadBytes data"
      unfolding f3 f4 f5 using dflt by simp
  qed
qed

text \<open>The file of the second scenario of the spec, read whole.\<close>

theorem devReadFileHandler_selects_lines_witness:
  "\<not> isl (devReadFileHandler readme_fs ''/ws'' readme_args)
   \<and> rf_total_lines (projr (devReadFileHandler readme_fs ''/ws'' readme_args)) = 2
   \<and> rf_start_line (projr (devReadFileHandler readme_fs ''/ws'' readme_args)) = 1
   \<and> rf_end_line (projr (devReadFileHandler readme_fs ''/ws'' readme_args)) = 2
   \<and> \<not> rf_truncated (projr (devReadFileHandler readme_fs ''/ws'' readme_args))
   \<and> rf_content (projr (devReadFileHandler readme_fs ''/ws'' readme_args))
       = ''hello'' @ [CHR 0x0A] @ ''world''"
proof -
  let ?data = "''hello'' @ [CHR 0x0A] @ ''world''"
  have p: "getStringArg readme_args ''path'' [] \<noteq> []"
    by (simp add: getStringArg_def readme_args_def)
  have r: "resolveWorkspacePath ''/ws'' (getStringArg readme_args ''path'' [])
      = Inr ''/ws/README.md''" by code_simp
  have f: "readme_fs ''/ws/README.md'' = Some ?data"
    by (simp add: readme_fs_def)
  have k: "take maxReadBytes ?data = ?data" by (simp add: maxReadBytes_def)
  have n: "\<not> maxReadBytes < length ?data" by (simp add: maxReadBytes_def)
  have l: "length (Split ?data (CHR 0x0A)) = 2" by simp
  have a: "readme_args ''start_line'' = None \<and> readme_args ''end_line'' = None"
    by (simp add: readme_args_def)
  from devReadFileHandler_selects_lines
         [where fs = readme_fs and args = readme_args and workspace = "''/ws''"
            and target = "''/ws/README.md''" and data = "?data", OF p r f]
  obtain res where
    "devReadFileHandler readme_fs ''/ws'' readme_args = Inr res"
    "rf_truncated res = (maxReadBytes < length ?data)"
    "rf_total_lines res = int (length (Split (take maxReadBytes ?data) (CHR 0x0A)))"
    "readme_args ''start_line'' = None \<and> readme_args ''end_line'' = None
       \<longrightarrow> rf_start_line res = 1 \<and> rf_end_line res = rf_total_lines res
           \<and> rf_content res = take maxReadBytes ?data"
    by blast
  with a k n l show ?thesis by simp
qed

section \<open>Facts about the xAI adapter\<close>

lemma update_or_append_find:
  "find (\<lambda>t. xtc_ID t = i) (update_or_append ts tc)
     = (if xtc_ID tc = i then Some tc else find (\<lambda>t. xtc_ID t = i) ts)"
  by (induction ts) auto

lemma update_or_append_ids:
  "set (map xtc_ID (update_or_append ts tc)) = insert (xtc_ID tc) (set (map xtc_ID ts))"
  by (induction ts) auto

lemma update_or_append_distinct:
  "distinct (map xtc_ID ts) \<Longrightarrow> distinct (map xtc_ID (update_or_append ts tc))"
proof (induction ts)
  case Nil
  show ?case by simp
next
  case (Cons t ts)
  then show ?case using update_or_append_ids [of ts tc] by auto
qed

lemma accumulate_distinct:
  "distinct (map xtc_ID ts) \<Longrightarrow> distinct (map xtc_ID (accumulate ts delta))"
  unfolding accumulate_def
  by (induction delta arbitrary: ts) (simp_all add: update_or_append_distinct)

lemma accumulate_append: "accumulate (accumulate ts xs) ys = accumulate ts (xs @ ys)"
  by (simp add: accumulate_def)

lemma find_app:
  "find P (xs @ ys) = (case find P xs of Some x \<Rightarrow> Some x | None \<Rightarrow> find P ys)"
  by (induction xs) auto

lemma accumulate_find:
  "find (\<lambda>t. xtc_ID t = i) (accumulate ts delta)
     = (case find (\<lambda>t. xtc_ID t = i) (rev delta) of
          Some tc \<Rightarrow> Some tc
        | None \<Rightarrow> find (\<lambda>t. xtc_ID t = i) ts)"
  unfolding accumulate_def
proof (induction delta arbitrary: ts)
  case Nil
  show ?case by simp
next
  case (Cons d delta)
  show ?case
    by (simp add: Cons.IH update_or_append_find find_app split: option.splits)
qed

lemma convert_xai_calls_ids: "map tc_ID (convert_xai_calls ts) = map xtc_ID ts"
  by (simp add: convert_xai_calls_def)

lemma process_choice_state:
  "ss_toolCalls (snd (process_choice st c)) = accumulate (ss_toolCalls st) (ch_ToolCalls c)"
  by (simp add: process_choice_def Let_def)

lemma process_choices_state:
  "ss_toolCalls (snd (process_choices st cs))
     = accumulate (ss_toolCalls st) (concat (map ch_ToolCalls cs))"
proof (induction cs arbitrary: st)
  case Nil
  show ?case by (simp add: accumulate_def)
next
  case (Cons c cs)
  show ?case
    by (simp add: split_beta Cons.IH process_choice_state accumulate_append)
qed

lemma process_choices_append:
  "fst (process_choices st (cs @ [c]))
     = fst (process_choices st cs) @ fst (process_choice (snd (process_choices st cs)) c)"
  by (induction cs arbitrary: st) (simp_all add: split_beta)

lemma process_choice_distinct:
  "distinct (map xtc_ID (ss_toolCalls st)) \<Longrightarrow>
     \<forall>chunk \<in> set (fst (process_choice st c)). distinct (map tc_ID (sc_ToolCalls chunk))"
  by (auto simp: process_choice_def Let_def convert_xai_calls_ids accumulate_distinct)

lemma process_choices_distinct:
  "distinct (map xtc_ID (ss_toolCalls st)) \<Longrightarrow>
     \<forall>chunk \<in> set (fst (process_choices st cs)). distinct (map tc_ID (sc_ToolCalls chunk))"
proof (induction cs arbitrary: st)
  case Nil
  show ?case by simp
next
  case (Cons c cs)
  from Cons.prems have "distinct (map xtc_ID (ss_toolCalls (snd (process_choice st c))))"
    by (simp add: process_choice_state accumulate_distinct)
  from Cons.IH [OF this] process_choice_distinct [OF Cons.prems, of c]
  show ?case by (auto simp: split_beta)
qed

lemma process_chunk_state:
  "ss_toolCalls (snd (process_chunk st chunk))
     = accumulate (ss_toolCalls st) (concat (map ch_ToolCalls (chunk_Choices chunk)))"
  by (simp add: process_chunk_def split_beta process_choices_state split: option.splits)

lemma process_lines_distinct:
  "distinct (map xtc_ID (ss_toolCalls st)) \<Longrightarrow>
     \<forall>chunk \<in> set (process_lines st body). distinct (map tc_ID (sc_ToolCalls chunk))"
proof (induction st body rule: process_lines.induct)
  case (5 st chunk rest)
  have d: "distinct (map xtc_ID (ss_toolCalls (snd (process_chunk st chunk))))"
    using "5.prems" by (simp add: process_chunk_state accumulate_distinct)
  have "\<forall>c \<in> set (fst (process_chunk st chunk)). distinct (map tc_ID (sc_ToolCalls c))"
    using process_choices_distinct [OF "5.prems", of "chunk_Choices chunk"]
    by (simp add: process_chunk_def split_beta)
  moreover have "\<forall>c \<in> set (process_lines (snd (process_chunk st chunk)) rest).
      distinct (map tc_ID (sc_ToolCalls c))"
    using "5.IH" [of "(fst (process_chunk st chunk), snd (process_chunk st chunk))"
        "fst (process_chunk st chunk)" "snd (process_chunk st chunk)"] d
    by simp
  ultimately show ?case by (auto simp: split_beta)
qed simp_all

text \<open>The lines before the last chunk only move the state on.\<close>

lemma process_lines_last_chunk:
  "DoneLine \<notin> set pre \<Longrightarrow>
     \<exists>st1. process_lines st (pre @ [Data chunk])
              = process_lines st pre @ fst (process_chunk st1 chunk)
          \<and> ss_toolCalls st1 = accumulate (ss_toolCalls st) (stream_tool_calls pre)"
proof (induction st pre rule: process_lines.induct)
  case (1 st)
  show ?case by (auto simp: split_beta accumulate_def intro!: exI [of _ st])
next
  case (5 st c rest)
  from "5.prems" have nd: "DoneLine \<notin> set rest" by simp
  from "5.IH" [of "(fst (process_chunk st c), snd (process_chunk st c))"
      "fst (process_chunk st c)" "snd (process_chunk st c)", OF _ _ nd]
  obtain st1 where
    "process_lines (snd (process_chunk st c)) (rest @ [Data chunk])
       = process_lines (snd (process_chunk st c)) rest @ fst (process_chunk st1 chunk)"
    "ss_toolCalls st1
       = accumulate (ss_toolCalls (snd (process_chunk st c))) (stream_tool_calls rest)"
    by auto
  then show ?case
    by (auto simp: split_beta process_chunk_state accumulate_append intro!: exI [of _ st1])
qed auto

lemma stream_tool_calls_last_chunk:
  "DoneLine \<notin> set pre \<Longrightarrow>
     stream_tool_calls (pre @ [Data chunk])
       = stream_tool_calls pre @ concat (map ch_ToolCalls (chunk_Choices chunk))"
  by (induction pre rule: stream_tool_calls.induct) auto

text \<open>
  Claim C5, as the code has it.  In the xAI adapter, every list of tool calls handed
  to the callback has at most one entry for an id.  When the finish reason comes with
  the last choice of a response body, the list handed over with it is the conversion
  of the accumulated calls, which hold one entry for every id received, with the fields
  of the latest tool call of that id.  (The loop of \<open>runState\<close> dispatches the calls of
  \<open>SendMessageSync\<close> as they are returned.)
\<close>

theorem stream_later_call_replaces_earlier:
  assumes "ch_FinishReason c \<noteq> []" and "DoneLine \<notin> set pre"
  shows "(\<forall>chunk \<in> set (SendMessageStream
              (pre @ [Data \<lparr>chunk_Choices = cs @ [c], chunk_Usage = usage\<rparr>])).
            distinct (map tc_ID (sc_ToolCalls chunk)))
     \<and> SendMessageStream (pre @ [Data \<lparr>chunk_Choices = cs @ [c], chunk_Usage = usage\<rparr>]) \<noteq> []
     \<and> sc_IsFinal (last (SendMessageStream
            (pre @ [Data \<lparr>chunk_Choices = cs @ [c], chunk_Usage = usage\<rparr>])))
     \<and> sc_ToolCalls (last (SendMessageStream
            (pre @ [Data \<lparr>chunk_Choices = cs @ [c], chunk_Usage = usage\<rparr>])))
         = convert_xai_calls (accumulate []
             (stream_tool_calls (pre @ [Data \<lparr>chunk_Choices = cs @ [c], chunk_Usage = usage\<rparr>])))
     \<and> set (map xtc_ID (accumulate []
             (stream_tool_calls (pre @ [Data \<lparr>chunk_Choices = cs @ [c], chunk_Usage = usage\<rparr>]))))
         = set (map xtc_ID
             (stream_tool_calls (pre @ [Data \<lparr>chunk_Choices = cs @ [c], chunk_Usage = usage\<rparr>])))
     \<and> (\<forall>i. find (\<lambda>t. xtc_ID t = i) (accumulate []
                 (stream_tool_calls
                    (pre @ [Data \<lparr>chunk_Choices = cs @ [c], chunk_Usage = usage\<rparr>])))
              = find (\<lambda>t. xtc_ID t = i)
                  (rev (stream_tool_calls
                    (pre @ [Data \<lparr>chunk_Choices = cs @ [c], chunk_Usage = usage\<rparr>]))))"
proof -
  let ?chunk = "\<lparr>chunk_Choices = cs @ [c], chunk_Usage = usage\<rparr>"
  let ?body = "pre @ [Data ?chunk]"
  let ?init = "\<lparr>ss_toolCalls = [], ss_usage = None, ss_isFirst = True\<rparr>"
  have dist: "\<forall>chunk \<in> set (SendMessageStream ?body). distinct (map tc_ID (sc_ToolCalls chunk))"
    unfolding SendMessageStream_def by (rule process_lines_distinct) simp
  from process_lines_last_chunk [OF assms(2), of ?init ?chunk]
  obtain st1 where body: "SendMessageStream ?body
        = process_lines ?init pre @ fst (process_chunk st1 ?chunk)"
    and st1: "ss_toolCalls st1 = accumulate [] (stream_tool_calls pre)"
    by (auto simp: SendMessageStream_def)
  let ?st2 = "snd (process_choices st1 cs)"
  have chunk: "fst (process_chunk st1 ?chunk)
      = fst (process_choices st1 cs) @ fst (process_choice ?st2 c)"
    by (simp add: process_chunk_def split_beta process_choices_append)
  let ?final = "\<lparr>sc_Content = [], sc_IsFirst = False, sc_IsFinal = True,
      sc_FinishReason = ch_FinishReason c,
      sc_ToolCalls = convert_xai_calls (accumulate (ss_toolCalls ?st2) (ch_ToolCalls c)),
      sc_Usage = ss_usage ?st2\<rparr>"
  have "\<exists>front. fst (process_choice ?st2 c) = front @ [?final]"
    using assms(1) by (simp add: process_choice_def Let_def)
  then obtain front where "fst (process_choice ?st2 c) = front @ [?final]" by blast
  with body chunk have lst: "SendMessageStream ?body
      = (process_lines ?init pre @ fst (process_choices st1 cs) @ front) @ [?final]"
    by simp
  have all: "accumulate (ss_toolCalls ?st2) (ch_ToolCalls c)
      = accumulate [] (stream_tool_calls ?body)"
    by (simp add: process_choices_state st1 accumulate_append
          stream_tool_calls_last_chunk [OF assms(2)])
  have ne: "SendMessageStream ?body \<noteq> []" and fin: "sc_IsFinal (last (SendMessageStream ?body))"
    and calls: "sc_ToolCalls (last (SendMessageStream ?body))
      = convert_xai_calls (accumulate [] (stream_tool_calls ?body))"
    unfolding lst by (simp_all add: all)
  have ids: "set (map xtc_ID (accumulate [] delta)) = set (map xtc_ID delta)" for delta
  proof -
    have "set (map xtc_ID (accumulate ts delta)) = set (map xtc_ID ts) \<union> set (map xtc_ID delta)"
      for ts
      unfolding accumulate_def
      by (induction delta arbitrary: ts) (simp_all add: update_or_append_ids del: set_map)
    from this [of "[]"] show ?thesis by simp
  qed
  have latest: "\<forall>i. find (\<lambda>t. xtc_ID t = i) (accumulate [] (stream_tool_calls ?body))
      = find (\<lambda>t. xtc_ID t = i) (rev (stream_tool_calls ?body))"
    by (simp add: accumulate_find split: option.splits)
  from dist ne fin calls ids [of "stream_tool_calls ?body"] latest show ?thesis by blast
qed

text \<open>The tool call \<open>c1\<close> arrives twice in the finishing choice; the second one is handed over.\<close>

theorem stream_later_call_replaces_earlier_witness:
  "sc_ToolCalls (last (SendMessageStream
       [Data \<lparr>chunk_Choices = [duplicate_choice], chunk_Usage = None\<rparr>]))
     = convert_xai_calls [xai_c1_second]"
proof -
  have f: "ch_FinishReason duplicate_choice \<noteq> []" by (simp add: duplicate_choice_def)
  have n: "DoneLine \<notin> set []" by simp
  have a: "accumulate [] (stream_tool_calls
      ([] @ [Data \<lparr>chunk_Choices = [] @ [duplicate_choice], chunk_Usage = None\<rparr>]))
      = [xai_c1_second]"
    by (simp add: accumulate_def duplicate_choice_def xai_c1_first_def xai_c1_second_def)
  from stream_later_call_replaces_earlier [OF f n, of "[]" None] a show ?thesis by simp
qed

text \<open>
  The loop of \<open>runState\<close> given two tool calls with the id \<open>c1\<close> in one result: both are
  dispatched, and two tool messages with that id follow the assistant message.
\<close>

theorem duplicate_id_dispatched_twice_counterexample:
  \<open>map tc_ID (res_ToolCalls (projr (duplicate_script 1))) = [''c1'', ''c1'']
   \<and> skill_calls (snd (RunGoal duplicate_runner ''read a file'' example_world))
       = [(''dev_read_file'', ''{"path":"a.txt"}''), (''dev_read_file'', ''{"path":"b.txt"}'')]
   \<and> map msg_ToolCallID
         (result_messages (fst (RunGoal duplicate_runner ''read a file'' example_world)))
       = [[], [], ''c1'', ''c1'', []]\<close>
  by code_simp

end
